theory Spec2Isabelle
  imports Complex_Main
begin

section \<open>Data model\<close>

text \<open>
  The two programs, \<^verbatim>\<open>app.py\<close> and \<^verbatim>\<open>pokemon_catchrate.py\<close>, share one
  data base layout: \<^verbatim>\<open>pokemon_db\<close> is a JSON object whose entries are dictionaries
  keyed by identifier strings. Python floats are idealised as real numbers (no rounding
  error, no overflow); Python integers are \<^typ>\<open>int\<close>. The paths on which the
  floating-point code produces NaN, infinity or a complex number are written out as
  branches of the model. Suffix \<open>_app\<close> marks \<^verbatim>\<open>app.py\<close>, suffix \<open>_pc\<close> marks
  \<^verbatim>\<open>pokemon_catchrate.py\<close>.
\<close>

datatype py_error = KeyError string | ZeroDivisionError | TypeError

record pokemon_entry =
  catch_rate :: real
  times_caught :: int
  shiny_caught :: string

text \<open>
  \<^verbatim>\<open>technique_dict\<close> is iterated in insertion order by \<^verbatim>\<open>catch_pokemon\<close>, so it
  is an association list; the other dictionaries are only looked up.
\<close>

record pokemon_db =
  pokemon_dict :: "string \<rightharpoonup> pokemon_entry"
  ballrate_dict :: "string \<rightharpoonup> real"
  technique_dict :: "(string \<times> real) list"
  berry_dict :: "string \<rightharpoonup> real"

text \<open>A table cell \<^verbatim>\<open>html.Td(text, style={...})\<close>.\<close>

datatype td = Td string "(string \<times> string) list"

text \<open>\<^verbatim>\<open>pokemon_db["letsgochain"]\<close> of \<^verbatim>\<open>app.py\<close>.\<close>

record letsgochain =
  pokemonname :: string
  chainvalue :: int
  chaintext :: string

record app_state =
  db_app :: pokemon_db
  pokemonchain_dict :: letsgochain
  chaintext_app :: td
  INIT_STATE :: bool

text \<open>\<^verbatim>\<open>chain_dict\<close> of \<^verbatim>\<open>pokemon_catchrate.py\<close>.\<close>

record chain_dict =
  chaintext_init :: td
  chaintext_pc :: td
  current_catch :: string
  last_catch :: string
  chainvalue_pc :: int

record pc_state =
  db_pc :: pokemon_db
  chain_pc :: chain_dict

section \<open>Ring colour\<close>

text \<open>\<^verbatim>\<open>catchring_color\<close> is the same text in both files.\<close>

definition catchring_color :: "real \<Rightarrow> string" where
  "catchring_color rate =
     (let orange = 70.0; yellow = 75.0; green = 80.0 in
      if rate < orange then ''red''
      else if orange \<le> rate \<and> rate < yellow then ''orange''
      else if yellow \<le> rate \<and> rate < green then ''gold''
      else ''green'')"

section \<open>Strings\<close>

text \<open>\<^verbatim>\<open>s.split("-")\<close>: the pieces between the separators, never an empty list.\<close>

fun split_dash :: "string \<Rightarrow> string list" where
  "split_dash [] = [[]]"
| "split_dash (c # cs) =
     (if c = CHR ''-'' then [] # split_dash cs
      else (case split_dash cs of
              [] \<Rightarrow> [[c]]
            | w # ws \<Rightarrow> (c # w) # ws))"

text \<open>Decimal rendering of an integer, as an f-string prints it.\<close>

definition digit_char :: "nat \<Rightarrow> char" where
  "digit_char n = char_of (48 + n)"

fun str_nat :: "nat \<Rightarrow> string" where
  "str_nat n = (if n < 10 then [digit_char n] else str_nat (n div 10) @ [digit_char (n mod 10)])"

definition str_int :: "int \<Rightarrow> string" where
  "str_int i = (if i < 0 then CHR ''-'' # str_nat (nat (- i)) else str_nat (nat i))"

text \<open>\<^verbatim>\<open>f'Chain of {chainvalue} {pokemonname.split("-")[-1]}!'\<close>\<close>

definition chain_message :: "int \<Rightarrow> string \<Rightarrow> string" where
  "chain_message v name = ''Chain of '' @ str_int v @ '' '' @ last (split_dash name) @ ''!''"

definition bold_style :: "(string \<times> string) list" where
  "bold_style = [(''color'', ''SteelBlue''), (''font-weight'', ''bold'')]"

definition normal_style :: "(string \<times> string) list" where
  "normal_style = [(''font-weight'', ''normal'')]"

section \<open>Event handling\<close>

text \<open>
  \<^verbatim>\<open>triggers_handler\<close> of \<^verbatim>\<open>app.py\<close>. Its first test reads the parameter
  \<^verbatim>\<open>trigger\<close>, the later ones read the global \<^verbatim>\<open>ctx.triggered_id\<close>, which is the
  first argument here (\<open>None\<close> when nothing fired). A missing species raises
  \<^verbatim>\<open>KeyError\<close> before anything is assigned, so an error leaves the state as it
  was. The rewrite of the JSON files at the end is outside the model.
\<close>

definition triggers_handler ::
  "string option \<Rightarrow> app_state \<Rightarrow> string option \<Rightarrow> string \<Rightarrow> string \<Rightarrow> py_error + app_state" where
  "triggers_handler triggered_id s trigger name shinyradio =
     (if trigger = Some ''add1_btn'' then
        (case pokemon_dict (db_app s) name of
           None \<Rightarrow> Inl (KeyError name)
         | Some p \<Rightarrow>
             let pd = (pokemon_dict (db_app s))(name \<mapsto> p\<lparr>times_caught := times_caught p + 1\<rparr>);
                 c0 = pokemonchain_dict s;
                 c1 = (if pokemonname c0 \<noteq> name
                       then c0\<lparr>pokemonname := name, chainvalue := 0\<rparr> else c0);
                 c2 = c1\<lparr>chainvalue := chainvalue c1 + 1\<rparr>;
                 c3 = c2\<lparr>chaintext := chain_message (chainvalue c2) name\<rparr>
             in Inr (s\<lparr>db_app := (db_app s)\<lparr>pokemon_dict := pd\<rparr>,
                      pokemonchain_dict := c3,
                      chaintext_app := Td (chaintext c3) bold_style\<rparr>))
      else if triggered_id = Some ''resetchain_btn'' then
        (let c1 = (pokemonchain_dict s)\<lparr>chainvalue := 0\<rparr>;
             c2 = c1\<lparr>chaintext := ''No chain''\<rparr>
         in Inr (s\<lparr>pokemonchain_dict := c2, chaintext_app := Td (chaintext c2) normal_style\<rparr>))
      else if triggered_id = Some ''shinyradio'' then
        (case pokemon_dict (db_app s) name of
           None \<Rightarrow> Inl (KeyError name)
         | Some p \<Rightarrow>
             Inr (s\<lparr>db_app := (db_app s)\<lparr>pokemon_dict :=
                    (pokemon_dict (db_app s))(name \<mapsto> p\<lparr>shiny_caught := shinyradio\<rparr>)\<rparr>\<rparr>))
      else Inr s)"

text \<open>
  The trigger block at the head of \<^verbatim>\<open>update_catchrates\<close> in
  \<^verbatim>\<open>pokemon_catchrate.py\<close> (the lines from \<^verbatim>\<open># Triggers\<close> up to the read of
  \<^verbatim>\<open>shiny_caught\<close>).
\<close>

definition update_triggers_pc ::
  "string option \<Rightarrow> pc_state \<Rightarrow> string \<Rightarrow> string \<Rightarrow> py_error + pc_state" where
  "update_triggers_pc triggered_id s name shinyradio =
     (if triggered_id = Some ''add1_btn'' then
        (case pokemon_dict (db_pc s) name of
           None \<Rightarrow> Inl (KeyError name)
         | Some p \<Rightarrow>
             let pd = (pokemon_dict (db_pc s))(name \<mapsto> p\<lparr>times_caught := times_caught p + 1\<rparr>);
                 c0 = (chain_pc s)\<lparr>current_catch := name\<rparr>;
                 c1 = (if last_catch c0 \<noteq> current_catch c0
                       then c0\<lparr>chainvalue_pc := 0, last_catch := name\<rparr> else c0);
                 c2 = c1\<lparr>chainvalue_pc := chainvalue_pc c1 + 1\<rparr>;
                 c3 = (if chainvalue_pc c2 > 0
                       then c2\<lparr>chaintext_pc := Td (chain_message (chainvalue_pc c2) name) bold_style\<rparr>
                       else c2\<lparr>chaintext_pc := chaintext_init c2\<rparr>)
             in Inr (s\<lparr>db_pc := (db_pc s)\<lparr>pokemon_dict := pd\<rparr>, chain_pc := c3\<rparr>))
      else if triggered_id = Some ''resetchain_btn'' then
        (let c1 = (chain_pc s)\<lparr>chainvalue_pc := 0\<rparr>;
             c2 = c1\<lparr>chaintext_pc := chaintext_init c1\<rparr>
         in Inr (s\<lparr>chain_pc := c2\<rparr>))
      else if triggered_id = Some ''shinyradio'' then
        (case pokemon_dict (db_pc s) name of
           None \<Rightarrow> Inl (KeyError name)
         | Some p \<Rightarrow>
             Inr (s\<lparr>db_pc := (db_pc s)\<lparr>pokemon_dict :=
                    (pokemon_dict (db_pc s))(name \<mapsto> p\<lparr>shiny_caught := shinyradio\<rparr>)\<rparr>\<rparr>))
      else Inr s)"

text \<open>The initial \<^verbatim>\<open>chain_dict\<close> literal of \<^verbatim>\<open>pokemon_catchrate.py\<close>.\<close>

definition chain_dict_init :: chain_dict where
  "chain_dict_init =
     \<lparr>chaintext_init = Td ''No chain'' normal_style,
      chaintext_pc = Td ''No chain'' normal_style,
      current_catch = '''', last_catch = '''', chainvalue_pc = 0\<rparr>"

section \<open>Catch rate\<close>

text \<open>
  \<^verbatim>\<open>round(x, 2)\<close>: the nearest multiple of 0.01, a tie going to the even neighbour.
\<close>

definition round_half_even :: "real \<Rightarrow> int" where
  "round_half_even x =
     (let f = \<lfloor>x\<rfloor> in
      if x - of_int f < 1 / 2 then f
      else if x - of_int f > 1 / 2 then f + 1
      else if even f then f else f + 1)"

definition round2 :: "real \<Rightarrow> real" where
  "round2 x = of_int (round_half_even (x * 100)) / 100"

text \<open>
  The denominator of the combat-power term,
  \<^verbatim>\<open>(100 - times_caught) / 100 * combat_power + 1\<close>, after
  \<^verbatim>\<open>times_caught = min(100, pokemon_dict[pokemon]["times_caught"])\<close>.
\<close>

definition cp_term :: "int \<Rightarrow> int \<Rightarrow> real" where
  "cp_term stored combat_power =
     (let times_caught = min 100 stored in
      (100 - of_int times_caught) / 100 * of_int combat_power + 1)"

subsection \<open>Multiplicative formula (\<^verbatim>\<open>app.py\<close>)\<close>

text \<open>The local \<^verbatim>\<open>a\<close> (the spec's scale factor) and \<^verbatim>\<open>b\<close> (its residual).\<close>

definition a_app :: "real \<Rightarrow> real \<Rightarrow> real \<Rightarrow> real \<Rightarrow> real \<Rightarrow> real" where
  "a_app cr d ball tech berry =
     1.25 * cr powr (1 / 1.85) * (10000 / d) powr (1 / 4) * ball powr (3 / 2)
       * (tech * berry) powr (1 / 2)"

definition b_app :: "real \<Rightarrow> real" where
  "b_app a = 65535 / (255 / a) powr (1 / 5.33)"

text \<open>
  The arithmetic of \<^verbatim>\<open>catchrate_calc\<close> once the table entries are read and the
  denominator \<open>d\<close> is not zero. \<^verbatim>\<open>np.pow\<close> of a negative base is NaN, NaN spreads
  through every later operation, and \<^verbatim>\<open>min(100, nan)\<close> is 100 because
  \<^verbatim>\<open>nan < 100\<close> is false. A zero \<^verbatim>\<open>a\<close> makes \<^verbatim>\<open>255 / a\<close> infinite (numpy
  does not raise), so \<^verbatim>\<open>b\<close> and the rate are 0.
\<close>

definition rate_app :: "real \<Rightarrow> real \<Rightarrow> real \<Rightarrow> real \<Rightarrow> real \<Rightarrow> real" where
  "rate_app cr d ball tech berry =
     (if cr < 0 \<or> 10000 / d < 0 \<or> ball < 0 \<or> tech * berry < 0 then 100
      else let a = a_app cr d ball tech berry in
        if a = 0 then 0
        else let b = b_app a;
                 rate = (b / 65535) * 100
             in round2 (min 100 rate))"

text \<open>
  \<^verbatim>\<open>catchrate_calc(technique)\<close>, nested in \<^verbatim>\<open>catch_pokemon\<close>: the look-ups happen
  in the order in which the expression for \<^verbatim>\<open>a\<close> is evaluated, and
  \<^verbatim>\<open>10000 / 0.0\<close> raises.
\<close>

definition catchrate_calc_app ::
  "pokemon_db \<Rightarrow> string \<Rightarrow> int \<Rightarrow> string \<Rightarrow> string \<Rightarrow> string \<Rightarrow> py_error + real" where
  "catchrate_calc_app db pokemon combat_power ball berry technique =
     (case pokemon_dict db pokemon of
        None \<Rightarrow> Inl (KeyError pokemon)
      | Some p \<Rightarrow>
          let d = cp_term (times_caught p) combat_power in
          if d = 0 then Inl ZeroDivisionError
          else (case ballrate_dict db ball of
             None \<Rightarrow> Inl (KeyError ball)
           | Some bl \<Rightarrow>
               (case map_of (technique_dict db) technique of
                  None \<Rightarrow> Inl (KeyError technique)
                | Some t \<Rightarrow>
                    (case berry_dict db berry of
                       None \<Rightarrow> Inl (KeyError berry)
                     | Some br \<Rightarrow> Inr (rate_app (catch_rate p) d bl t br)))))"

subsection \<open>Additive formula (\<^verbatim>\<open>pokemon_catchrate.py\<close>)\<close>

definition a_pc :: "real \<Rightarrow> real \<Rightarrow> real \<Rightarrow> real \<Rightarrow> real \<Rightarrow> real" where
  "a_pc cr d ball tech berry =
     1.25 * cr powr (1 / 1.85) * (10000 / d) powr (1 / 4) * ball powr (3 / 2)
       * (tech + berry) powr (1 / 2)"

definition b_pc :: "real \<Rightarrow> real" where
  "b_pc a = 65535 / a powr (5 / 16)"

text \<open>
  Here the powers are Python's \<^verbatim>\<open>**\<close>: a zero factor makes \<^verbatim>\<open>a\<close> zero and
  \<^verbatim>\<open>65535 / a ** (5 / 16)\<close> raises \<^verbatim>\<open>ZeroDivisionError\<close>; a negative base gives a
  complex number, on which \<^verbatim>\<open>min(100, catch_rate)\<close> raises \<^verbatim>\<open>TypeError\<close>.
\<close>

definition rate_pc :: "real \<Rightarrow> real \<Rightarrow> real \<Rightarrow> real \<Rightarrow> real \<Rightarrow> py_error + real" where
  "rate_pc cr d ball tech berry =
     (if cr = 0 \<or> ball = 0 \<or> tech + berry = 0 then Inl ZeroDivisionError
      else if cr < 0 \<or> 10000 / d < 0 \<or> ball < 0 \<or> tech + berry < 0 then Inl TypeError
      else let a = a_pc cr d ball tech berry;
               b = b_pc a;
               rate = (1 - b / 65536) * 100
           in Inr (round2 (min 100 rate)))"

definition catchrate_calc_pc ::
  "pokemon_db \<Rightarrow> string \<Rightarrow> int \<Rightarrow> string \<Rightarrow> string \<Rightarrow> string \<Rightarrow> py_error + real" where
  "catchrate_calc_pc db pokemon combat_power ball berry technique =
     (case pokemon_dict db pokemon of
        None \<Rightarrow> Inl (KeyError pokemon)
      | Some p \<Rightarrow>
          let d = cp_term (times_caught p) combat_power in
          if d = 0 then Inl ZeroDivisionError
          else (case ballrate_dict db ball of
             None \<Rightarrow> Inl (KeyError ball)
           | Some bl \<Rightarrow>
               (case map_of (technique_dict db) technique of
                  None \<Rightarrow> Inl (KeyError technique)
                | Some t \<Rightarrow>
                    (case berry_dict db berry of
                       None \<Rightarrow> Inl (KeyError berry)
                     | Some br \<Rightarrow> rate_pc (catch_rate p) d bl t br))))"

subsection \<open>The table of rates\<close>

text \<open>
  The list comprehension \<^verbatim>\<open>[[technique, catchrate_calc(technique)] for technique in
  technique_dict]\<close>: the first exception ends it.
\<close>

fun rate_rows :: "(string \<Rightarrow> py_error + real) \<Rightarrow> string list \<Rightarrow> py_error + (string \<times> real) list" where
  "rate_rows f [] = Inr []"
| "rate_rows f (t # ts) =
     (case f t of
        Inl e \<Rightarrow> Inl e
      | Inr r \<Rightarrow> (case rate_rows f ts of Inl e \<Rightarrow> Inl e | Inr rows \<Rightarrow> Inr ((t, r) # rows)))"

text \<open>
  The result of \<^verbatim>\<open>catch_pokemon\<close>: either a message is printed and \<^verbatim>\<open>None\<close> is
  returned, or the data frame of technique and rate is returned; an exception of
  \<^verbatim>\<open>catchrate_calc\<close> passes through.
\<close>

datatype catch_result = Printed_None string | DataFrame "(string \<times> real) list"

definition catch_pokemon_app ::
  "pokemon_db \<Rightarrow> string \<Rightarrow> int \<Rightarrow> string \<Rightarrow> string \<Rightarrow> py_error + catch_result" where
  "catch_pokemon_app db pokemon combat_power ball berry =
     (if pokemon \<notin> dom (pokemon_dict db) then Inr (Printed_None ''Pokemon not found'')
      else if ball \<notin> dom (ballrate_dict db) then Inr (Printed_None ''Ball not found'')
      else if berry \<notin> dom (berry_dict db) then Inr (Printed_None ''Berry not found'')
      else (case rate_rows (catchrate_calc_app db pokemon combat_power ball berry)
                   (map fst (technique_dict db)) of
              Inl e \<Rightarrow> Inl e
            | Inr rows \<Rightarrow> Inr (DataFrame rows)))"

definition catch_pokemon_pc ::
  "pokemon_db \<Rightarrow> string \<Rightarrow> int \<Rightarrow> string \<Rightarrow> string \<Rightarrow> py_error + catch_result" where
  "catch_pokemon_pc db pokemon combat_power ball berry =
     (if pokemon \<notin> dom (pokemon_dict db) then Inr (Printed_None ''Pokemon not found'')
      else if ball \<notin> dom (ballrate_dict db) then Inr (Printed_None ''Ball not found'')
      else if berry \<notin> dom (berry_dict db) then Inr (Printed_None ''Berry not found'')
      else (case rate_rows (catchrate_calc_pc db pokemon combat_power ball berry)
                   (map fst (technique_dict db)) of
              Inl e \<Rightarrow> Inl e
            | Inr rows \<Rightarrow> Inr (DataFrame rows)))"

section \<open>The callback\<close>

text \<open>
  What \<^verbatim>\<open>update_catchrates\<close> hands to the page, without the sprites and the cry:
  the four rate cells (label, rate, ring colour; the source renders them as
  \<^verbatim>\<open>html.Td(f'None         {rate}%', style={"border": f'4px solid {colour}', ...})\<close>),
  the stored count, the chain cell and the shiny flag.
\<close>

record callback_output =
  rate_cells :: "(string \<times> real \<times> string) list"
  numbercaught :: int
  chaintext_out :: td
  shinyradio_out :: string

text \<open>
  \<^verbatim>\<open>techniquerate_df["Catch Rate"][i]\<close> for \<open>i\<close> from 0 to 3, read in this order
  when \<^verbatim>\<open>ringcolor_dict\<close> is built: a label that the column's index does not have
  raises \<^verbatim>\<open>KeyError\<close> of that number.
\<close>

definition ring_cells :: "(string \<times> real) list \<Rightarrow> py_error + (string \<times> real \<times> string) list" where
  "ring_cells rows =
     (if length rows < 4 then Inl (KeyError (str_nat (length rows)))
      else Inr (map (\<lambda>(label, i). (label, snd (rows ! i), catchring_color (snd (rows ! i))))
                  [(''None'', 0), (''Nice'', 1), (''Great'', 2), (''Excellent'', 3)]))"

text \<open>
  \<^verbatim>\<open>update_catchrates\<close> of \<^verbatim>\<open>app.py\<close>: the first-call initialisation, the
  trigger handler, the read of \<^verbatim>\<open>pokemon_dict[pokemonname]["shiny_caught"]\<close>, the rate
  table, the ring colours and the returned tuple. When \<^verbatim>\<open>catch_pokemon\<close> has
  returned \<^verbatim>\<open>None\<close>, subscripting it raises \<^verbatim>\<open>TypeError\<close>. The fetches of the
  sprites and of the cry are outside the model. The result is the state the globals are
  left in (also when an exception ends the call), the lines printed, and the exception
  or the returned values.
\<close>

definition update_catchrates_app ::
  "string option \<Rightarrow> app_state \<Rightarrow> string \<Rightarrow> int \<Rightarrow> string \<Rightarrow> string \<Rightarrow> string
     \<Rightarrow> app_state \<times> string list \<times> (py_error + callback_output)" where
  "update_catchrates_app triggered_id s name cp ball berry shinyradio =
     (let s0 = (if INIT_STATE s
                then s\<lparr>chaintext_app := Td (chaintext (pokemonchain_dict s)) bold_style,
                       INIT_STATE := False\<rparr>
                else s)
      in case triggers_handler triggered_id s0 triggered_id name shinyradio of
           Inl e \<Rightarrow> (s0, [], Inl e)
         | Inr s1 \<Rightarrow>
             (case pokemon_dict (db_app s1) name of
                None \<Rightarrow> (s1, [], Inl (KeyError name))
              | Some p \<Rightarrow>
                  (case catch_pokemon_app (db_app s1) name cp ball berry of
                     Inl e \<Rightarrow> (s1, [], Inl e)
                   | Inr (Printed_None msg) \<Rightarrow> (s1, [msg], Inl TypeError)
                   | Inr (DataFrame rows) \<Rightarrow>
                       (case ring_cells rows of
                          Inl e \<Rightarrow> (s1, [], Inl e)
                        | Inr cells \<Rightarrow>
                            (s1, [], Inr \<lparr>rate_cells = cells,
                                          numbercaught = times_caught p,
                                          chaintext_out = chaintext_app s1,
                                          shinyradio_out = shiny_caught p\<rparr>)))))"

text \<open>\<^verbatim>\<open>update_catchrates\<close> of \<^verbatim>\<open>pokemon_catchrate.py\<close>, in the same way.\<close>

definition update_catchrates_pc ::
  "string option \<Rightarrow> pc_state \<Rightarrow> string \<Rightarrow> int \<Rightarrow> string \<Rightarrow> string \<Rightarrow> string
     \<Rightarrow> pc_state \<times> string list \<times> (py_error + callback_output)" where
  "update_catchrates_pc triggered_id s name cp ball berry shinyradio =
     (case update_triggers_pc triggered_id s name shinyradio of
        Inl e \<Rightarrow> (s, [], Inl e)
      | Inr s1 \<Rightarrow>
          (case pokemon_dict (db_pc s1) name of
             None \<Rightarrow> (s1, [], Inl (KeyError name))
           | Some p \<Rightarrow>
               (case catch_pokemon_pc (db_pc s1) name cp ball berry of
                  Inl e \<Rightarrow> (s1, [], Inl e)
                | Inr (Printed_None msg) \<Rightarrow> (s1, [msg], Inl TypeError)
                | Inr (DataFrame rows) \<Rightarrow>
                    (case ring_cells rows of
                       Inl e \<Rightarrow> (s1, [], Inl e)
                     | Inr cells \<Rightarrow>
                         (s1, [], Inr \<lparr>rate_cells = cells,
                                       numbercaught = times_caught p,
                                       chaintext_out = chaintext_pc (chain_pc s1),
                                       shinyradio_out = shiny_caught p\<rparr>)))))"

section \<open>Sample data\<close>

text \<open>
  The JSON data base is not part of the sources; this one has the layout the code reads
  and is used to evaluate the functions at concrete inputs.
\<close>

definition demo_db :: pokemon_db where
  "demo_db =
     \<lparr>pokemon_dict =
        [''pikachu'' \<mapsto> \<lparr>catch_rate = 190, times_caught = 0, shiny_caught = ''No''\<rparr>,
         ''mewtwo'' \<mapsto> \<lparr>catch_rate = 3, times_caught = 0, shiny_caught = ''No''\<rparr>,
         ''alola-raichu'' \<mapsto> \<lparr>catch_rate = 75, times_caught = 120, shiny_caught = ''Yes''\<rparr>],
      ballrate_dict = [''pokeball'' \<mapsto> 1, ''greatball'' \<mapsto> 1.5, ''ultraball'' \<mapsto> 2],
      technique_dict = [(''None'', 1), (''Nice'', 1.1), (''Great'', 1.3), (''Excellent'', 1.5)],
      berry_dict = [''none'' \<mapsto> 1, ''razz'' \<mapsto> 1.5]\<rparr>"

definition demo_app :: app_state where
  "demo_app =
     \<lparr>db_app = demo_db,
      pokemonchain_dict = \<lparr>pokemonname = ''pikachu'', chainvalue = 2, chaintext = ''Chain of 2 pikachu!''\<rparr>,
      chaintext_app = Td ''No chain'' normal_style,
      INIT_STATE = True\<rparr>"

definition demo_pc :: pc_state where
  "demo_pc = \<lparr>db_pc = demo_db, chain_pc = chain_dict_init\<rparr>"

section \<open>Rounding and the shape of the formulas\<close>

lemma round_half_even_bounds: "\<lfloor>x\<rfloor> \<le> round_half_even x \<and> round_half_even x \<le> \<lfloor>x\<rfloor> + 1"
  by (simp add: round_half_even_def Let_def)

lemma round_half_even_of_int: "round_half_even (of_int n) = n"
  by (simp add: round_half_even_def Let_def)

lemma round_half_even_mono:
  assumes "x \<le> y"
  shows "round_half_even x \<le> round_half_even y"
proof (cases "\<lfloor>x\<rfloor> < \<lfloor>y\<rfloor>")
  case True
  have "round_half_even x \<le> \<lfloor>x\<rfloor> + 1"
    using round_half_even_bounds by blast
  also have "\<dots> \<le> \<lfloor>y\<rfloor>"
    using True by simp
  also have "\<dots> \<le> round_half_even y"
    using round_half_even_bounds by blast
  finally show ?thesis .
next
  case False
  with assms have eq: "\<lfloor>x\<rfloor> = \<lfloor>y\<rfloor>"
    using floor_mono [of x y] by linarith
  show ?thesis
    using assms by (auto simp: round_half_even_def Let_def eq)
qed

lemma round2_mono: "x \<le> y \<Longrightarrow> round2 x \<le> round2 y"
  by (simp add: round2_def round_half_even_mono divide_right_mono)

lemma round2_centi: "round2 (of_int n / 100) = of_int n / 100"
  by (simp add: round2_def round_half_even_of_int)

lemma round2_nonneg: "0 \<le> x \<Longrightarrow> 0 \<le> round2 x"
  using round2_mono [of 0 x] round2_centi [of 0] by simp

lemma round2_le_100: "x \<le> 100 \<Longrightarrow> round2 x \<le> 100"
  using round2_mono [of x 100] round2_centi [of 10000] by simp

lemma a_app_pos:
  "0 < cr \<Longrightarrow> 0 < d \<Longrightarrow> 0 < ball \<Longrightarrow> 0 < tech \<Longrightarrow> 0 < berry \<Longrightarrow> 0 < a_app cr d ball tech berry"
  by (simp add: a_app_def)

lemma a_pc_pos:
  "0 < cr \<Longrightarrow> 0 < d \<Longrightarrow> 0 < ball \<Longrightarrow> 0 < tech + berry \<Longrightarrow> 0 < a_pc cr d ball tech berry"
  by (simp add: a_pc_def)

lemma b_app_pos: "0 < a \<Longrightarrow> 0 < b_app a"
  by (simp add: b_app_def)

lemma b_app_mono:
  assumes "0 < a" "a \<le> a'"
  shows "b_app a \<le> b_app a'"
proof -
  have "255 / a' \<le> 255 / a"
    using assms by (simp add: frac_le)
  then have "(255 / a') powr (1 / 5.33) \<le> (255 / a) powr (1 / 5.33)"
    using assms by (intro powr_mono2) auto
  moreover have "0 < (255 / a') powr (1 / 5.33)"
    using assms by simp
  ultimately show ?thesis
    unfolding b_app_def by (intro frac_le) auto
qed

lemma b_pc_pos: "0 < a \<Longrightarrow> 0 < b_pc a"
  by (simp add: b_pc_def)

lemma b_pc_antimono:
  assumes "0 < a" "a \<le> a'"
  shows "b_pc a' \<le> b_pc a"
proof -
  have "a powr (5 / 16) \<le> a' powr (5 / 16)"
    using assms by (intro powr_mono2) auto
  moreover have "0 < a powr (5 / 16)"
    using assms by simp
  ultimately show ?thesis
    unfolding b_pc_def by (intro frac_le) auto
qed

lemma cp_term_pos: "0 < cp \<Longrightarrow> 1 \<le> cp_term stored cp"
  by (simp add: cp_term_def Let_def)

lemma rate_app_eq:
  assumes "0 < cr" "0 < d" "0 < ball" "0 < tech" "0 < berry"
  shows "rate_app cr d ball tech berry =
         round2 (min 100 (b_app (a_app cr d ball tech berry) / 65535 * 100))"
proof -
  have "\<not> (cr < 0 \<or> 10000 / d < 0 \<or> ball < 0 \<or> tech * berry < 0)"
    using assms by (simp add: not_less mult_nonneg_nonneg)
  moreover have "a_app cr d ball tech berry \<noteq> 0"
    using a_app_pos [OF assms] by simp
  ultimately show ?thesis
    unfolding rate_app_def Let_def by (simp only: if_False)
qed

lemma rate_pc_eq:
  assumes "0 < cr" "0 < d" "0 < ball" "0 < tech" "0 < berry"
  shows "rate_pc cr d ball tech berry =
         Inr (round2 (min 100 ((1 - b_pc (a_pc cr d ball tech berry) / 65536) * 100)))"
proof -
  have "\<not> (cr = 0 \<or> ball = 0 \<or> tech + berry = 0)"
    using assms by simp
  moreover have "\<not> (cr < 0 \<or> 10000 / d < 0 \<or> ball < 0 \<or> tech + berry < 0)"
    using assms by (simp add: not_less)
  ultimately show ?thesis
    unfolding rate_pc_def Let_def by (simp only: if_False)
qed

lemma rate_app_range:
  assumes "0 < cr" "0 < d" "0 < ball" "0 < tech" "0 < berry"
  shows "0 \<le> rate_app cr d ball tech berry \<and> rate_app cr d ball tech berry \<le> 100"
proof -
  have "0 < b_app (a_app cr d ball tech berry)"
    by (rule b_app_pos [OF a_app_pos [OF assms]])
  then have "0 \<le> min 100 (b_app (a_app cr d ball tech berry) / 65535 * 100)"
    by simp
  then show ?thesis
    unfolding rate_app_eq [OF assms]
    by (simp add: round2_nonneg round2_le_100)
qed

lemma catchrate_calc_app_eq:
  assumes "pokemon_dict db pokemon = Some p" "cp_term (times_caught p) cp \<noteq> 0"
    "ballrate_dict db ball = Some bl" "map_of (technique_dict db) tech = Some t"
    "berry_dict db berry = Some br"
  shows "catchrate_calc_app db pokemon cp ball berry tech =
         Inr (rate_app (catch_rate p) (cp_term (times_caught p) cp) bl t br)"
  using assms by (simp add: catchrate_calc_app_def Let_def)

lemma catchrate_calc_pc_eq:
  assumes "pokemon_dict db pokemon = Some p" "cp_term (times_caught p) cp \<noteq> 0"
    "ballrate_dict db ball = Some bl" "map_of (technique_dict db) tech = Some t"
    "berry_dict db berry = Some br"
  shows "catchrate_calc_pc db pokemon cp ball berry tech =
         rate_pc (catch_rate p) (cp_term (times_caught p) cp) bl t br"
  using assms by (simp add: catchrate_calc_pc_def Let_def)

lemma a_app_mono:
  assumes "0 < cr" "0 < d" "0 < bl" "bl \<le> bl'" "0 < t" "t \<le> t'" "0 < br" "br \<le> br'"
  shows "a_app cr d bl t br \<le> a_app cr d bl' t' br'"
proof -
  have 1: "bl powr (3 / 2) \<le> bl' powr (3 / 2)"
    using assms by (intro powr_mono2) auto
  have "t * br \<le> t' * br'"
    using assms by (intro mult_mono) auto
  then have 2: "(t * br) powr (1 / 2) \<le> (t' * br') powr (1 / 2)"
    using assms by (intro powr_mono2) auto
  have "0 \<le> 1.25 * cr powr (1 / 1.85) * (10000 / d) powr (1 / 4)"
    by simp
  then have 3: "1.25 * cr powr (1 / 1.85) * (10000 / d) powr (1 / 4) * bl powr (3 / 2)
        \<le> 1.25 * cr powr (1 / 1.85) * (10000 / d) powr (1 / 4) * bl' powr (3 / 2)"
    using 1 by (rule mult_left_mono [rotated])
  show ?thesis
    unfolding a_app_def by (rule mult_mono [OF 3 2]) simp_all
qed

lemma a_pc_mono:
  assumes "0 < cr" "0 < d" "0 < bl" "bl \<le> bl'" "0 < t" "t \<le> t'" "0 < br" "br \<le> br'"
  shows "a_pc cr d bl t br \<le> a_pc cr d bl' t' br'"
proof -
  have 1: "bl powr (3 / 2) \<le> bl' powr (3 / 2)"
    using assms by (intro powr_mono2) auto
  have 2: "(t + br) powr (1 / 2) \<le> (t' + br') powr (1 / 2)"
    using assms by (intro powr_mono2) auto
  have "0 \<le> 1.25 * cr powr (1 / 1.85) * (10000 / d) powr (1 / 4)"
    by simp
  then have 3: "1.25 * cr powr (1 / 1.85) * (10000 / d) powr (1 / 4) * bl powr (3 / 2)
        \<le> 1.25 * cr powr (1 / 1.85) * (10000 / d) powr (1 / 4) * bl' powr (3 / 2)"
    using 1 by (rule mult_left_mono [rotated])
  show ?thesis
    unfolding a_pc_def by (rule mult_mono [OF 3 2]) simp_all
qed

lemma rate_app_mono:
  assumes "0 < cr" "0 < d" "0 < bl" "bl \<le> bl'" "0 < t" "t \<le> t'" "0 < br" "br \<le> br'"
  shows "rate_app cr d bl t br \<le> rate_app cr d bl' t' br'"
proof -
  have pos: "0 < bl'" "0 < t'" "0 < br'"
    using assms by auto
  have "b_app (a_app cr d bl t br) \<le> b_app (a_app cr d bl' t' br')"
    using assms by (intro b_app_mono a_app_mono a_app_pos)
  then have "min 100 (b_app (a_app cr d bl t br) / 65535 * 100)
      \<le> min 100 (b_app (a_app cr d bl' t' br') / 65535 * 100)"
    by simp
  then show ?thesis
    using assms pos by (simp add: rate_app_eq round2_mono)
qed

lemma rate_pc_mono:
  assumes "0 < cr" "0 < d" "0 < bl" "bl \<le> bl'" "0 < t" "t \<le> t'" "0 < br" "br \<le> br'"
  shows "\<exists>r r'. rate_pc cr d bl t br = Inr r \<and> rate_pc cr d bl' t' br' = Inr r' \<and> r \<le> r'"
proof -
  have pos: "0 < bl'" "0 < t'" "0 < br'" "0 < t + br"
    using assms by auto
  have "b_pc (a_pc cr d bl' t' br') \<le> b_pc (a_pc cr d bl t br)"
    using assms pos by (intro b_pc_antimono a_pc_mono a_pc_pos)
  then have "min 100 ((1 - b_pc (a_pc cr d bl t br) / 65536) * 100)
      \<le> min 100 ((1 - b_pc (a_pc cr d bl' t' br') / 65536) * 100)"
    by simp
  then show ?thesis
    using assms pos by (simp add: rate_pc_eq round2_mono)
qed

lemma rate_pc_range:
  assumes "0 < cr" "0 < d" "0 < ball" "0 < tech" "0 < berry"
  shows "\<exists>r. rate_pc cr d ball tech berry = Inr r \<and> r \<le> 100
           \<and> (1 \<le> a_pc cr d ball tech berry \<longrightarrow> 0 \<le> r)"
proof -
  let ?a = "a_pc cr d ball tech berry"
  let ?x = "min 100 ((1 - b_pc ?a / 65536) * 100)"
  have eq: "rate_pc cr d ball tech berry = Inr (round2 ?x)"
    by (rule rate_pc_eq [OF assms])
  have up: "round2 ?x \<le> 100"
    by (rule round2_le_100) simp
  have low: "0 \<le> round2 ?x" if "1 \<le> ?a"
  proof -
    have "1 powr (5 / 16) \<le> ?a powr (5 / 16)"
      using that by (intro powr_mono2) auto
    then have "1 \<le> ?a powr (5 / 16)"
      by simp
    then have "b_pc ?a \<le> 65535"
      unfolding b_pc_def by (simp add: divide_le_eq)
    then have "0 \<le> ?x"
      by simp
    then show ?thesis
      by (rule round2_nonneg)
  qed
  show ?thesis
    using eq up low by simp
qed

lemma rate_app_clamped:
  assumes "0 < cr" "0 < d" "0 < bl" "0 < t" "0 < br" "255 \<le> a_app cr d bl t br"
  shows "rate_app cr d bl t br = 100"
proof -
  let ?a = "a_app cr d bl t br"
  have "0 < ?a"
    using assms by simp
  have "255 / ?a \<le> 1"
    using assms \<open>0 < ?a\<close> by simp
  then have "(255 / ?a) powr (1 / 5.33) \<le> 1 powr (1 / 5.33)"
    using \<open>0 < ?a\<close> by (intro powr_mono2) auto
  then have "(255 / ?a) powr (1 / 5.33) \<le> 1"
    by simp
  moreover have "0 < (255 / ?a) powr (1 / 5.33)"
    using \<open>0 < ?a\<close> by simp
  ultimately have "65535 \<le> b_app ?a"
    unfolding b_app_def by (simp add: le_divide_eq)
  then have "min 100 (b_app ?a / 65535 * 100) = 100"
    by simp
  then show ?thesis
    using round2_centi [of 10000] by (simp add: rate_app_eq assms)
qed

lemma one_le_a_pc:
  assumes "1 \<le> cr" "0 < d" "d \<le> 10000" "1 \<le> bl" "1 \<le> t + br"
  shows "1 \<le> a_pc cr d bl t br"
proof -
  have 1: "1 \<le> cr powr (1 / 1.85)"
    using assms by (intro ge_one_powr_ge_zero) auto
  have 2: "1 \<le> (10000 / d) powr (1 / 4)"
    using assms by (intro ge_one_powr_ge_zero) auto
  have 3: "1 \<le> bl powr (3 / 2)"
    using assms by (intro ge_one_powr_ge_zero) auto
  have 4: "1 \<le> (t + br) powr (1 / 2)"
    using assms by (intro ge_one_powr_ge_zero) auto
  have "1 * 1 * 1 * 1 * 1 \<le> 1.25 * cr powr (1 / 1.85) * (10000 / d) powr (1 / 4) * bl powr (3 / 2)
        * (t + br) powr (1 / 2)"
    using 1 2 3 4 by (intro mult_mono) auto
  then show ?thesis
    by (simp add: a_pc_def)
qed

lemma rate_rows_all:
  assumes "\<forall>t\<in>set ts. \<exists>r. f t = Inr r \<and> P r"
  shows "\<exists>rows. rate_rows f ts = Inr rows \<and> map fst rows = ts \<and> (\<forall>r\<in>snd ` set rows. P r)"
  using assms
proof (induction ts)
  case Nil
  then show ?case by simp
next
  case (Cons t ts)
  then obtain r where r: "f t = Inr r" "P r"
    by auto
  from Cons obtain rows where rows: "rate_rows f ts = Inr rows" "map fst rows = ts"
      "\<forall>r\<in>snd ` set rows. P r"
    by auto
  show ?case
    using r rows by simp
qed

lemma rate_rows_first_error:
  assumes "ts \<noteq> []" "\<forall>t\<in>set ts. f t = Inl e"
  shows "rate_rows f ts = Inl e"
  using assms by (cases ts) auto

lemma demo_lookups:
  "pokemon_dict demo_db ''pikachu'' = Some \<lparr>catch_rate = 190, times_caught = 0, shiny_caught = ''No''\<rparr>"
  "pokemon_dict demo_db ''mewtwo'' = Some \<lparr>catch_rate = 3, times_caught = 0, shiny_caught = ''No''\<rparr>"
  "pokemon_dict demo_db ''alola-raichu'' = Some \<lparr>catch_rate = 75, times_caught = 120, shiny_caught = ''Yes''\<rparr>"
  "pokemon_dict demo_db ''missingno'' = None"
  "ballrate_dict demo_db ''pokeball'' = Some 1"
  "ballrate_dict demo_db ''greatball'' = Some 1.5"
  "ballrate_dict demo_db ''ultraball'' = Some 2"
  "ballrate_dict demo_db ''masterball'' = None"
  "berry_dict demo_db ''none'' = Some 1"
  "berry_dict demo_db ''razz'' = Some 1.5"
  "berry_dict demo_db ''pinap'' = None"
  "map_of (technique_dict demo_db) ''None'' = Some 1"
  "map_of (technique_dict demo_db) ''Nice'' = Some 1.1"
  "map_of (technique_dict demo_db) ''Great'' = Some 1.3"
  "map_of (technique_dict demo_db) ''Excellent'' = Some 1.5"
  "map_of (technique_dict demo_db) ''Curve'' = None"
  by (simp_all add: demo_db_def)

lemma chaintext_init_unchanged:
  assumes "update_triggers_pc triggered_id s name shinyradio = Inr s'"
  shows "chaintext_init (chain_pc s') = chaintext_init (chain_pc s)"
  using assms
  by (auto simp: update_triggers_pc_def Let_def split: if_splits option.splits)

lemma triggers_handler_known:
  assumes "pokemon_dict (db_app s) name = Some p"
  shows "\<exists>s1. triggers_handler triggered_id s triggered_id name sr = Inr s1
           \<and> name \<in> dom (pokemon_dict (db_app s1))
           \<and> ballrate_dict (db_app s1) = ballrate_dict (db_app s)
           \<and> berry_dict (db_app s1) = berry_dict (db_app s)"
  using assms by (auto simp: triggers_handler_def Let_def)

lemma update_triggers_pc_known:
  assumes "pokemon_dict (db_pc s) name = Some p"
  shows "\<exists>s1. update_triggers_pc triggered_id s name sr = Inr s1
           \<and> name \<in> dom (pokemon_dict (db_pc s1))
           \<and> ballrate_dict (db_pc s1) = ballrate_dict (db_pc s)
           \<and> berry_dict (db_pc s1) = berry_dict (db_pc s)"
  using assms by (auto simp: update_triggers_pc_def Let_def)

lemma catch_pokemon_unresolved:
  assumes "pokemon \<in> dom (pokemon_dict db)"
    and "ball \<notin> dom (ballrate_dict db) \<or> berry \<notin> dom (berry_dict db)"
  shows "\<exists>msg. catch_pokemon_app db pokemon cp ball berry = Inr (Printed_None msg)
           \<and> catch_pokemon_pc db pokemon cp ball berry = Inr (Printed_None msg)
           \<and> (msg = ''Ball not found'' \<or> msg = ''Berry not found'')"
  using assms by (auto simp: catch_pokemon_app_def catch_pokemon_pc_def)

section \<open>Bounds on rational powers\<close>

text \<open>
  A power with a rational exponent is bounded by comparing integer powers:
  \<open>x powr (p / q) \<le> y\<close> follows from \<open>x ^ p \<le> y ^ q\<close>. The integer powers are
  bounded by repeated squaring, rounding every intermediate bound outwards.
\<close>

lemma powr_frac_le:
  fixes x y :: real
  assumes "0 < x" "0 < y" "0 < q" "x ^ p \<le> y ^ q"
  shows "x powr (real p / real q) \<le> y"
proof -
  have "x powr (real p / real q) = (x ^ p) powr (1 / real q)"
    using assms by (simp add: powr_powr powr_realpow [symmetric])
  also have "\<dots> \<le> (y ^ q) powr (1 / real q)"
    using assms by (intro powr_mono2) auto
  also have "\<dots> = y"
    using assms by (simp add: powr_powr powr_realpow [symmetric])
  finally show ?thesis .
qed

lemma powr_frac_ge:
  fixes x y :: real
  assumes "0 < x" "0 < y" "0 < q" "y ^ q \<le> x ^ p"
  shows "y \<le> x powr (real p / real q)"
proof -
  have "y = (y ^ q) powr (1 / real q)"
    using assms by (simp add: powr_powr powr_realpow [symmetric])
  also have "\<dots> \<le> (x ^ p) powr (1 / real q)"
    using assms by (intro powr_mono2) auto
  also have "\<dots> = x powr (real p / real q)"
    using assms by (simp add: powr_powr powr_realpow [symmetric])
  finally show ?thesis .
qed

lemma pow190_ge_16: "16 \<le> (190::real) powr (1 / 1.85)"
proof -
  have "(16::real) \<le> 190 powr (real 20 / real 37)"
    by (rule powr_frac_ge) simp_all
  then show ?thesis by simp
qed

lemma pow10000: "(10000::real) powr (1 / 4) = 10"
proof -
  have "(10000::real) = 10 ^ 4"
    by simp
  then have "(10000::real) powr (1 / 4) = (10 powr 4) powr (1 / 4)"
    by simp
  also have "\<dots> = 10"
    by (simp add: powr_powr)
  finally show ?thesis .
qed

lemma pow2_32: "2 \<le> (2::real) powr (3 / 2)"
  using powr_mono [of 1 "3 / 2" "2::real"] by simp

lemma demo_a_app_ultra:
  assumes "1 \<le> t"
  shows "255 \<le> a_app 190 1 2 t 1"
proof -
  have 4: "1 \<le> (t * 1) powr (1 / 2)"
    using assms by (intro ge_one_powr_ge_zero) auto
  have "1.25 * 16 * 10 * 2 * 1 \<le> 1.25 * (190::real) powr (1 / 1.85) * (10000 / 1) powr (1 / 4)
      * 2 powr (3 / 2) * (t * 1) powr (1 / 2)"
    using pow190_ge_16 pow2_32 4 by (intro mult_mono) (simp_all add: pow10000)
  then show ?thesis
    by (simp add: a_app_def)
qed

lemma pow_up_even:
  fixes x c e :: real
  assumes "0 \<le> x" and "x ^ n \<le> c" and "c * c \<le> e"
  shows "x ^ (2 * n) \<le> e"
proof -
  have c: "0 \<le> c"
    using assms(1,2) zero_le_power [of x n] by linarith
  have eq: "x ^ (2 * n) = x ^ n * x ^ n"
    by (simp add: mult_2 power_add)
  have "x ^ n * x ^ n \<le> c * c"
    using assms c by (intro mult_mono) auto
  then show ?thesis
    unfolding eq using assms(3) by linarith
qed

lemma pow_up_odd:
  fixes x xu c e :: real
  assumes "0 \<le> x" and "x \<le> xu" and "x ^ n \<le> c" and "c * c * xu \<le> e"
  shows "x ^ (2 * n + 1) \<le> e"
proof -
  have c: "0 \<le> c"
    using assms(1,3) zero_le_power [of x n] by linarith
  have eq: "x ^ (2 * n + 1) = x ^ n * x ^ n * x"
    by (simp add: mult_2 power_add)
  have "x ^ n * x ^ n \<le> c * c"
    using assms c by (intro mult_mono) auto
  then have "x ^ n * x ^ n * x \<le> c * c * xu"
    using assms c by (intro mult_mono) auto
  then show ?thesis
    unfolding eq using assms(4) by linarith
qed

lemma pow_lo_even:
  fixes x c e :: real
  assumes "0 \<le> c" and "c \<le> x ^ n" and "e \<le> c * c"
  shows "e \<le> x ^ (2 * n)"
proof -
  have eq: "x ^ (2 * n) = x ^ n * x ^ n"
    by (simp add: mult_2 power_add)
  have "c * c \<le> x ^ n * x ^ n"
    using assms by (intro mult_mono) auto
  then show ?thesis
    unfolding eq using assms(3) by linarith
qed

lemma pow_lo_odd:
  fixes x xl c e :: real
  assumes "0 \<le> xl" and "xl \<le> x" and "0 \<le> c" and "c \<le> x ^ n" and "e \<le> c * c * xl"
  shows "e \<le> x ^ (2 * n + 1)"
proof -
  have eq: "x ^ (2 * n + 1) = x ^ n * x ^ n * x"
    by (simp add: mult_2 power_add)
  have "c * c \<le> x ^ n * x ^ n"
    using assms by (intro mult_mono) auto
  then have "c * c * xl \<le> x ^ n * x ^ n * x"
    using assms by (intro mult_mono) auto
  then show ?thesis
    unfolding eq using assms(5) by linarith
qed

lemma root37_190_lo_left:
  fixes x :: real
  assumes "0 \<le> x" and "x \<le> 17.05133"
  shows "x ^ 37 \<le> 3758855255432754318780350000000000000000000000"
proof -
  have p1: "x ^ 1 \<le> 17.05133"
    using assms by simp
  have p2: "x ^ 2 \<le> 290.7478547689"
    using pow_up_even [OF assms(1) p1, of "290.7478547689"] by simp
  have p4: "x ^ 4 \<le> 84534.3150527173664724073"
    using pow_up_even [OF assms(1) p2, of "84534.3150527173664724073"] by simp
  have p9: "x ^ 9 \<le> 121849663932.477433361229"
    using pow_up_odd [OF assms p4, of "121849663932.477433361229"] by simp
  have p18: "x ^ 18 \<le> 14847340600457691889855.6"
    using pow_up_even [OF assms(1) p9, of "14847340600457691889855.6"] by simp
  have p37: "x ^ 37 \<le> 3758855255432754318780350000000000000000000000"
    using pow_up_odd [OF assms p18, of "3758855255432754318780350000000000000000000000"] by simp
  show ?thesis
    by (rule p37)
qed

lemma root37_190_lo_right:
  fixes x :: real
  assumes "190 \<le> x"
  shows "3758997345754595819335560000000000000000000000 \<le> x ^ 20"
proof -
  have nn: "(0::real) \<le> 190"
    by simp
  have p1: "190 \<le> x ^ 1"
    using assms by simp
  have p2: "36100 \<le> x ^ 2"
    using pow_lo_even [OF _ p1, of "36100"] by simp
  have p5: "247609900000 \<le> x ^ 5"
    using pow_lo_odd [OF nn assms _ p2, of "247609900000"] by simp
  have p10: "61310662578010000000000 \<le> x ^ 10"
    using pow_lo_even [OF _ p5, of "61310662578010000000000"] by simp
  have p20: "3758997345754595819335560000000000000000000000 \<le> x ^ 20"
    using pow_lo_even [OF _ p10, of "3758997345754595819335560000000000000000000000"] by simp
  show ?thesis
    by (rule p20)
qed

lemma root37_190_lo:
  fixes x :: real
  assumes "190 \<le> x"
  shows "(17.05133::real) ^ 37 \<le> x ^ 20"
proof -
  have "(17.05133::real) ^ 37 \<le> 3758855255432754318780350000000000000000000000"
    by (rule root37_190_lo_left) simp_all
  also have "\<dots> \<le> 3758997345754595819335560000000000000000000000"
    by simp
  also have "\<dots> \<le> x ^ 20"
    by (rule root37_190_lo_right [OF assms])
  finally show ?thesis .
qed

lemma root37_190_up_left:
  fixes x :: real
  assumes "0 \<le> x" and "x \<le> 190"
  shows "x ^ 20 \<le> 3758997345754595819335570000000000000000000000"
proof -
  have p1: "x ^ 1 \<le> 190"
    using assms by simp
  have p2: "x ^ 2 \<le> 36100"
    using pow_up_even [OF assms(1) p1, of "36100"] by simp
  have p5: "x ^ 5 \<le> 247609900000"
    using pow_up_odd [OF assms p2, of "247609900000"] by simp
  have p10: "x ^ 10 \<le> 61310662578010000000000"
    using pow_up_even [OF assms(1) p5, of "61310662578010000000000"] by simp
  have p20: "x ^ 20 \<le> 3758997345754595819335570000000000000000000000"
    using pow_up_even [OF assms(1) p10, of "3758997345754595819335570000000000000000000000"] by simp
  show ?thesis
    by (rule p20)
qed

lemma root37_190_up_right:
  fixes x :: real
  assumes "17.05136 \<le> x"
  shows "3759099955492520345311000000000000000000000000 \<le> x ^ 37"
proof -
  have nn: "(0::real) \<le> 17.05136"
    by simp
  have p1: "17.05136 \<le> x ^ 1"
    using assms by simp
  have p2: "290.7488778496 \<le> x ^ 2"
    using pow_lo_even [OF _ p1, of "290.7488778496"] by simp
  have p4: "84534.9099708016215202201 \<le> x ^ 4"
    using pow_lo_even [OF _ p2, of "84534.9099708016215202201"] by simp
  have p9: "121851593379.669807977235 \<le> x ^ 9"
    using pow_lo_odd [OF nn assms _ p4, of "121851593379.669807977235"] by simp
  have p18: "14847810809164390976209.5 \<le> x ^ 18"
    using pow_lo_even [OF _ p9, of "14847810809164390976209.5"] by simp
  have p37: "3759099955492520345311000000000000000000000000 \<le> x ^ 37"
    using pow_lo_odd [OF nn assms _ p18, of "3759099955492520345311000000000000000000000000"] by simp
  show ?thesis
    by (rule p37)
qed

lemma root37_190_up:
  fixes x :: real
  assumes "0 \<le> x" and "x \<le> 190"
  shows "x ^ 20 \<le> (17.05136::real) ^ 37"
proof -
  have "x ^ 20 \<le> 3758997345754595819335570000000000000000000000"
    by (rule root37_190_up_left [OF assms])
  also have "\<dots> \<le> 3759099955492520345311000000000000000000000000"
    by simp
  also have "\<dots> \<le> (17.05136::real) ^ 37"
    by (rule root37_190_up_right) simp
  finally show ?thesis .
qed

lemma root4_cp_lo_left:
  fixes x :: real
  assumes "0 \<le> x" and "x \<le> 3.154419"
  shows "x ^ 4 \<le> 99.0096487575083405820088"
proof -
  have p1: "x ^ 1 \<le> 3.154419"
    using assms by simp
  have p2: "x ^ 2 \<le> 9.950359227561"
    using pow_up_even [OF assms(1) p1, of "9.950359227561"] by simp
  have p4: "x ^ 4 \<le> 99.0096487575083405820088"
    using pow_up_even [OF assms(1) p2, of "99.0096487575083405820088"] by simp
  show ?thesis
    by (rule p4)
qed

lemma root4_cp_lo_right:
  fixes x :: real
  assumes "99.0099 \<le> x"
  shows "99.0099 \<le> x ^ 1"
proof -
  have nn: "(0::real) \<le> 99.0099"
    by simp
  have p1: "99.0099 \<le> x ^ 1"
    using assms by simp
  show ?thesis
    by (rule p1)
qed

lemma root4_cp_lo:
  fixes x :: real
  assumes "99.0099 \<le> x"
  shows "(3.154419::real) ^ 4 \<le> x ^ 1"
proof -
  have "(3.154419::real) ^ 4 \<le> 99.0096487575083405820088"
    by (rule root4_cp_lo_left) simp_all
  also have "\<dots> \<le> 99.0099"
    by simp
  also have "\<dots> \<le> x ^ 1"
    by (rule root4_cp_lo_right [OF assms])
  finally show ?thesis .
qed

lemma root4_cp_up_left:
  fixes x :: real
  assumes "0 \<le> x" and "x \<le> 99.00991"
  shows "x ^ 1 \<le> 99.00991"
proof -
  have p1: "x ^ 1 \<le> 99.00991"
    using assms by simp
  show ?thesis
    by (rule p1)
qed

lemma root4_cp_up_right:
  fixes x :: real
  assumes "3.154423 \<le> x"
  shows "99.010150960098843775259 \<le> x ^ 4"
proof -
  have nn: "(0::real) \<le> 3.154423"
    by simp
  have p1: "3.154423 \<le> x ^ 1"
    using assms by simp
  have p2: "9.950384462929 \<le> x ^ 2"
    using pow_lo_even [OF _ p1, of "9.950384462929"] by simp
  have p4: "99.010150960098843775259 \<le> x ^ 4"
    using pow_lo_even [OF _ p2, of "99.010150960098843775259"] by simp
  show ?thesis
    by (rule p4)
qed

lemma root4_cp_up:
  fixes x :: real
  assumes "0 \<le> x" and "x \<le> 99.00991"
  shows "x ^ 1 \<le> (3.154423::real) ^ 4"
proof -
  have "x ^ 1 \<le> 99.00991"
    by (rule root4_cp_up_left [OF assms])
  also have "\<dots> \<le> 99.010150960098843775259"
    by simp
  also have "\<dots> \<le> (3.154423::real) ^ 4"
    by (rule root4_cp_up_right) simp
  finally show ?thesis .
qed

lemma root533_up_left:
  fixes x :: real
  assumes "0 \<le> x" and "x \<le> 3.792735766"
  shows "x ^ 100 \<le> 7857035467185517515592080000000000000000000000000000000000"
proof -
  have p1: "x ^ 1 \<le> 3.792735766"
    using assms by simp
  have p3: "x ^ 3 \<le> 54.5579145674828585625525"
    using pow_up_odd [OF assms p1, of "54.5579145674828585625525"] by simp
  have p6: "x ^ 6 \<le> 2976.56604195275830989661"
    using pow_up_even [OF assms(1) p3, of "2976.56604195275830989661"] by simp
  have p12: "x ^ 12 \<le> 8859945.40210630974294536"
    using pow_up_even [OF assms(1) p6, of "8859945.40210630974294536"] by simp
  have p25: "x ^ 25 \<le> 297724571172192.389588744"
    using pow_up_odd [OF assms p12, of "297724571172192.389588744"] by simp
  have p50: "x ^ 50 \<le> 88639920279665851669197600000"
    using pow_up_even [OF assms(1) p25, of "88639920279665851669197600000"] by simp
  have p100: "x ^ 100 \<le> 7857035467185517515592080000000000000000000000000000000000"
    using pow_up_even [OF assms(1) p50, of "7857035467185517515592080000000000000000000000000000000000"] by simp
  show ?thesis
    by (rule p100)
qed

lemma root533_up_right:
  fixes x :: real
  assumes "1.284168 \<le> x"
  shows "7860363584141080515140910000000000000000000000000000000000 \<le> x ^ 533"
proof -
  have nn: "(0::real) \<le> 1.284168"
    by simp
  have p1: "1.284168 \<le> x ^ 1"
    using assms by simp
  have p2: "1.649087452224 \<le> x ^ 2"
    using pow_lo_even [OF _ p1, of "1.649087452224"] by simp
  have p4: "2.71948942508264348254617 \<le> x ^ 4"
    using pow_lo_even [OF _ p2, of "2.71948942508264348254617"] by simp
  have p8: "7.39562273313632677866579 \<le> x ^ 8"
    using pow_lo_even [OF _ p4, of "7.39562273313632677866579"] by simp
  have p16: "54.6952356108828321358533 \<le> x ^ 16"
    using pow_lo_even [OF _ p8, of "54.6952356108828321358533"] by simp
  have p33: "3841.67692087065441372094 \<le> x ^ 33"
    using pow_lo_odd [OF nn assms _ p16, of "3841.67692087065441372094"] by simp
  have p66: "14758481.5643502323337337 \<le> x ^ 66"
    using pow_lo_even [OF _ p33, of "14758481.5643502323337337"] by simp
  have p133: "279708199608199.459009095 \<le> x ^ 133"
    using pow_lo_odd [OF nn assms _ p66, of "279708199608199.459009095"] by simp
  have p266: "78236676928060351994323100000 \<le> x ^ 266"
    using pow_lo_even [OF _ p133, of "78236676928060351994323100000"] by simp
  have p533: "7860363584141080515140910000000000000000000000000000000000 \<le> x ^ 533"
    using pow_lo_odd [OF nn assms _ p266, of "7860363584141080515140910000000000000000000000000000000000"] by simp
  show ?thesis
    by (rule p533)
qed

lemma root533_up:
  fixes x :: real
  assumes "0 \<le> x" and "x \<le> 3.792735766"
  shows "x ^ 100 \<le> (1.284168::real) ^ 533"
proof -
  have "x ^ 100 \<le> 7857035467185517515592080000000000000000000000000000000000"
    by (rule root533_up_left [OF assms])
  also have "\<dots> \<le> 7860363584141080515140910000000000000000000000000000000000"
    by simp
  also have "\<dots> \<le> (1.284168::real) ^ 533"
    by (rule root533_up_right) simp
  finally show ?thesis .
qed

lemma root533_lo_left:
  fixes x :: real
  assumes "0 \<le> x" and "x \<le> 1.284165"
  shows "x ^ 533 \<le> 7850582220472205305993620000000000000000000000000000000000"
proof -
  have p1: "x ^ 1 \<le> 1.284165"
    using assms by simp
  have p2: "x ^ 2 \<le> 1.649079747225"
    using pow_up_even [OF assms(1) p1, of "1.649079747225"] by simp
  have p4: "x ^ 4 \<le> 2.71946401270766989520063"
    using pow_up_even [OF assms(1) p2, of "2.71946401270766989520063"] by simp
  have p8: "x ^ 8 \<le> 7.39548451641210176924865"
    using pow_up_even [OF assms(1) p4, of "7.39548451641210176924865"] by simp
  have p16: "x ^ 16 \<le> 54.6931912324911387631591"
    using pow_up_even [OF assms(1) p8, of "54.6931912324911387631591"] by simp
  have p33: "x ^ 33 \<le> 3841.38076662948469693077"
    using pow_up_odd [OF assms p16, of "3841.38076662948469693077"] by simp
  have p66: "x ^ 66 \<le> 14756206.1942309275709587"
    using pow_up_even [OF assms(1) p33, of "14756206.1942309275709587"] by simp
  have p133: "x ^ 133 \<le> 279621305708216.10558629"
    using pow_up_odd [OF assms p66, of "279621305708216.10558629"] by simp
  have p266: "x ^ 266 \<le> 78188074605967648833682500000"
    using pow_up_even [OF assms(1) p133, of "78188074605967648833682500000"] by simp
  have p533: "x ^ 533 \<le> 7850582220472205305993620000000000000000000000000000000000"
    using pow_up_odd [OF assms p266, of "7850582220472205305993620000000000000000000000000000000000"] by simp
  show ?thesis
    by (rule p533)
qed

lemma root533_lo_right:
  fixes x :: real
  assumes "3.792723355 \<le> x"
  shows "7854464819513334529473300000000000000000000000000000000000 \<le> x ^ 100"
proof -
  have nn: "(0::real) \<le> 3.792723355"
    by simp
  have p1: "3.792723355 \<le> x ^ 1"
    using assms by simp
  have p3: "54.5573789783168297871779 \<le> x ^ 3"
    using pow_lo_odd [OF nn assms _ p1, of "54.5573789783168297871779"] by simp
  have p6: "2976.50760098368713002526 \<le> x ^ 6"
    using pow_lo_even [OF _ p3, of "2976.50760098368713002526"] by simp
  have p12: "8859597.49871366443805238 \<le> x ^ 12"
    using pow_lo_even [OF _ p6, of "8859597.49871366443805238"] by simp
  have p25: "297700215965371.120375663 \<le> x ^ 25"
    using pow_lo_odd [OF nn assms _ p12, of "297700215965371.120375663"] by simp
  have p50: "88625418585828606113192900000 \<le> x ^ 50"
    using pow_lo_even [OF _ p25, of "88625418585828606113192900000"] by simp
  have p100: "7854464819513334529473300000000000000000000000000000000000 \<le> x ^ 100"
    using pow_lo_even [OF _ p50, of "7854464819513334529473300000000000000000000000000000000000"] by simp
  show ?thesis
    by (rule p100)
qed

lemma root533_lo:
  fixes x :: real
  assumes "3.792723355 \<le> x"
  shows "(1.284165::real) ^ 533 \<le> x ^ 100"
proof -
  have "(1.284165::real) ^ 533 \<le> 7850582220472205305993620000000000000000000000000000000000"
    by (rule root533_lo_left) simp_all
  also have "\<dots> \<le> 7854464819513334529473300000000000000000000000000000000000"
    by simp
  also have "\<dots> \<le> x ^ 100"
    by (rule root533_lo_right [OF assms])
  finally show ?thesis .
qed

lemma root37_3_lo_left:
  fixes x :: real
  assumes "0 \<le> x" and "x \<le> 1.81093"
  shows "x ^ 37 \<le> 3486274214.57287372554464"
proof -
  have p1: "x ^ 1 \<le> 1.81093"
    using assms by simp
  have p2: "x ^ 2 \<le> 3.2794674649"
    using pow_up_even [OF assms(1) p1, of "3.2794674649"] by simp
  have p4: "x ^ 4 \<le> 10.75490685333763273201"
    using pow_up_even [OF assms(1) p2, of "10.75490685333763273201"] by simp
  have p9: "x ^ 9 \<le> 209.466690037307784170133"
    using pow_up_odd [OF assms p4, of "209.466690037307784170133"] by simp
  have p18: "x ^ 18 \<le> 43876.2942351855761240962"
    using pow_up_even [OF assms(1) p9, of "43876.2942351855761240962"] by simp
  have p37: "x ^ 37 \<le> 3486274214.57287372554464"
    using pow_up_odd [OF assms p18, of "3486274214.57287372554464"] by simp
  show ?thesis
    by (rule p37)
qed

lemma root37_3_lo_right:
  fixes x :: real
  assumes "3 \<le> x"
  shows "3486784401 \<le> x ^ 20"
proof -
  have nn: "(0::real) \<le> 3"
    by simp
  have p1: "3 \<le> x ^ 1"
    using assms by simp
  have p2: "9 \<le> x ^ 2"
    using pow_lo_even [OF _ p1, of "9"] by simp
  have p5: "243 \<le> x ^ 5"
    using pow_lo_odd [OF nn assms _ p2, of "243"] by simp
  have p10: "59049 \<le> x ^ 10"
    using pow_lo_even [OF _ p5, of "59049"] by simp
  have p20: "3486784401 \<le> x ^ 20"
    using pow_lo_even [OF _ p10, of "3486784401"] by simp
  show ?thesis
    by (rule p20)
qed

lemma root37_3_lo:
  fixes x :: real
  assumes "3 \<le> x"
  shows "(1.81093::real) ^ 37 \<le> x ^ 20"
proof -
  have "(1.81093::real) ^ 37 \<le> 3486274214.57287372554464"
    by (rule root37_3_lo_left) simp_all
  also have "\<dots> \<le> 3486784401"
    by simp
  also have "\<dots> \<le> x ^ 20"
    by (rule root37_3_lo_right [OF assms])
  finally show ?thesis .
qed

lemma root37_3_up_left:
  fixes x :: real
  assumes "0 \<le> x" and "x \<le> 3"
  shows "x ^ 20 \<le> 3486784401"
proof -
  have p1: "x ^ 1 \<le> 3"
    using assms by simp
  have p2: "x ^ 2 \<le> 9"
    using pow_up_even [OF assms(1) p1, of "9"] by simp
  have p5: "x ^ 5 \<le> 243"
    using pow_up_odd [OF assms p2, of "243"] by simp
  have p10: "x ^ 10 \<le> 59049"
    using pow_up_even [OF assms(1) p5, of "59049"] by simp
  have p20: "x ^ 20 \<le> 3486784401"
    using pow_up_even [OF assms(1) p10, of "3486784401"] by simp
  show ?thesis
    by (rule p20)
qed

lemma root37_3_up_right:
  fixes x :: real
  assumes "1.81094 \<le> x"
  shows "3486986583.17975349266847 \<le> x ^ 37"
proof -
  have nn: "(0::real) \<le> 1.81094"
    by simp
  have p1: "1.81094 \<le> x ^ 1"
    using assms by simp
  have p2: "3.2795036836 \<le> x ^ 2"
    using pow_lo_even [OF _ p1, of "3.2795036836"] by simp
  have p4: "10.75514441074596890896 \<le> x ^ 4"
    using pow_lo_even [OF _ p2, of "10.75514441074596890896"] by simp
  have p9: "209.477100389178701396773 \<le> x ^ 9"
    using pow_lo_odd [OF nn assms _ p4, of "209.477100389178701396773"] by simp
  have p18: "43880.6555874580516521839 \<le> x ^ 18"
    using pow_lo_even [OF _ p9, of "43880.6555874580516521839"] by simp
  have p37: "3486986583.17975349266847 \<le> x ^ 37"
    using pow_lo_odd [OF nn assms _ p18, of "3486986583.17975349266847"] by simp
  show ?thesis
    by (rule p37)
qed

lemma root37_3_up:
  fixes x :: real
  assumes "0 \<le> x" and "x \<le> 3"
  shows "x ^ 20 \<le> (1.81094::real) ^ 37"
proof -
  have "x ^ 20 \<le> 3486784401"
    by (rule root37_3_up_left [OF assms])
  also have "\<dots> \<le> 3486986583.17975349266847"
    by simp
  also have "\<dots> \<le> (1.81094::real) ^ 37"
    by (rule root37_3_up_right) simp
  finally show ?thesis .
qed

lemma root16_scen_lo_left:
  fixes x :: real
  assumes "0 \<le> x" and "x \<le> 4.15103"
  shows "x ^ 16 \<le> 7771304989.21411757081084"
proof -
  have p1: "x ^ 1 \<le> 4.15103"
    using assms by simp
  have p2: "x ^ 2 \<le> 17.2310500609"
    using pow_up_even [OF assms(1) p1, of "17.2310500609"] by simp
  have p4: "x ^ 4 \<le> 296.90908620124189370881"
    using pow_up_even [OF assms(1) p2, of "296.90908620124189370881"] by simp
  have p8: "x ^ 8 \<le> 88155.0054688564894924822"
    using pow_up_even [OF assms(1) p4, of "88155.0054688564894924822"] by simp
  have p16: "x ^ 16 \<le> 7771304989.21411757081084"
    using pow_up_even [OF assms(1) p8, of "7771304989.21411757081084"] by simp
  show ?thesis
    by (rule p16)
qed

lemma root16_scen_lo_right:
  fixes x :: real
  assumes "95.0827 \<le> x"
  shows "7771547897.86859770577536 \<le> x ^ 5"
proof -
  have nn: "(0::real) \<le> 95.0827"
    by simp
  have p1: "95.0827 \<le> x ^ 1"
    using assms by simp
  have p2: "9040.71983929 \<le> x ^ 2"
    using pow_lo_even [OF _ p1, of "9040.71983929"] by simp
  have p5: "7771547897.86859770577536 \<le> x ^ 5"
    using pow_lo_odd [OF nn assms _ p2, of "7771547897.86859770577536"] by simp
  show ?thesis
    by (rule p5)
qed

lemma root16_scen_lo:
  fixes x :: real
  assumes "95.0827 \<le> x"
  shows "(4.15103::real) ^ 16 \<le> x ^ 5"
proof -
  have "(4.15103::real) ^ 16 \<le> 7771304989.21411757081084"
    by (rule root16_scen_lo_left) simp_all
  also have "\<dots> \<le> 7771547897.86859770577536"
    by simp
  also have "\<dots> \<le> x ^ 5"
    by (rule root16_scen_lo_right [OF assms])
  finally show ?thesis .
qed

lemma root16_scen_up_left:
  fixes x :: real
  assumes "0 \<le> x" and "x \<le> 95.0837"
  shows "x ^ 5 \<le> 7771956579.5409112950989"
proof -
  have p1: "x ^ 1 \<le> 95.0837"
    using assms by simp
  have p2: "x ^ 2 \<le> 9040.91000569"
    using pow_up_even [OF assms(1) p1, of "9040.91000569"] by simp
  have p5: "x ^ 5 \<le> 7771956579.5409112950989"
    using pow_up_odd [OF assms p2, of "7771956579.5409112950989"] by simp
  show ?thesis
    by (rule p5)
qed

lemma root16_scen_up_right:
  fixes x :: real
  assumes "4.15106 \<le> x"
  shows "7772203664.62543714206175 \<le> x ^ 16"
proof -
  have nn: "(0::real) \<le> 4.15106"
    by simp
  have p1: "4.15106 \<le> x ^ 1"
    using assms by simp
  have p2: "17.2312991236 \<le> x ^ 2"
    using pow_lo_even [OF _ p1, of "17.2312991236"] by simp
  have p4: "296.91766948697812807696 \<le> x ^ 4"
    using pow_lo_even [OF _ p2, of "296.91766948697812807696"] by simp
  have p8: "88160.1024535783825223365 \<le> x ^ 8"
    using pow_lo_even [OF _ p4, of "88160.1024535783825223365"] by simp
  have p16: "7772203664.62543714206175 \<le> x ^ 16"
    using pow_lo_even [OF _ p8, of "7772203664.62543714206175"] by simp
  show ?thesis
    by (rule p16)
qed

lemma root16_scen_up:
  fixes x :: real
  assumes "0 \<le> x" and "x \<le> 95.0837"
  shows "x ^ 5 \<le> (4.15106::real) ^ 16"
proof -
  have "x ^ 5 \<le> 7771956579.5409112950989"
    by (rule root16_scen_up_left [OF assms])
  also have "\<dots> \<le> 7772203664.62543714206175"
    by simp
  also have "\<dots> \<le> (4.15106::real) ^ 16"
    by (rule root16_scen_up_right) simp
  finally show ?thesis .
qed

lemma root16_big_lo_left:
  fixes x :: real
  assumes "0 \<le> x" and "x \<le> 0.7005"
  shows "x ^ 16 \<le> 0.00336147769576172055719901"
proof -
  have p1: "x ^ 1 \<le> 0.7005"
    using assms by simp
  have p2: "x ^ 2 \<le> 0.49070025"
    using pow_up_even [OF assms(1) p1, of "0.49070025"] by simp
  have p4: "x ^ 4 \<le> 0.2407867353500625"
    using pow_up_even [OF assms(1) p2, of "0.2407867353500625"] by simp
  have p8: "x ^ 8 \<le> 0.0579782519205410379644188"
    using pow_up_even [OF assms(1) p4, of "0.0579782519205410379644188"] by simp
  have p16: "x ^ 16 \<le> 0.00336147769576172055719901"
    using pow_up_even [OF assms(1) p8, of "0.00336147769576172055719901"] by simp
  show ?thesis
    by (rule p16)
qed

lemma root16_big_lo_right:
  fixes x :: real
  assumes "0.32012 \<le> x"
  shows "0.0033617393763618038008832 \<le> x ^ 5"
proof -
  have nn: "(0::real) \<le> 0.32012"
    by simp
  have p1: "0.32012 \<le> x ^ 1"
    using assms by simp
  have p2: "0.1024768144 \<le> x ^ 2"
    using pow_lo_even [OF _ p1, of "0.1024768144"] by simp
  have p5: "0.0033617393763618038008832 \<le> x ^ 5"
    using pow_lo_odd [OF nn assms _ p2, of "0.0033617393763618038008832"] by simp
  show ?thesis
    by (rule p5)
qed

lemma root16_big_lo:
  fixes x :: real
  assumes "0.32012 \<le> x"
  shows "(0.7005::real) ^ 16 \<le> x ^ 5"
proof -
  have "(0.7005::real) ^ 16 \<le> 0.00336147769576172055719901"
    by (rule root16_big_lo_left) simp_all
  also have "\<dots> \<le> 0.0033617393763618038008832"
    by simp
  also have "\<dots> \<le> x ^ 5"
    by (rule root16_big_lo_right [OF assms])
  finally show ?thesis .
qed

lemma root16_big_up_left:
  fixes x :: real
  assumes "0 \<le> x" and "x \<le> 0.32014"
  shows "x ^ 5 \<le> 0.0033627896573384707097824"
proof -
  have p1: "x ^ 1 \<le> 0.32014"
    using assms by simp
  have p2: "x ^ 2 \<le> 0.1024896196"
    using pow_up_even [OF assms(1) p1, of "0.1024896196"] by simp
  have p5: "x ^ 5 \<le> 0.0033627896573384707097824"
    using pow_up_odd [OF assms p2, of "0.0033627896573384707097824"] by simp
  show ?thesis
    by (rule p5)
qed

lemma root16_big_up_right:
  fixes x :: real
  assumes "0.70052 \<le> x"
  shows "0.00336301360329939032662117 \<le> x ^ 16"
proof -
  have nn: "(0::real) \<le> 0.70052"
    by simp
  have p1: "0.70052 \<le> x ^ 1"
    using assms by simp
  have p2: "0.4907282704 \<le> x ^ 2"
    using pow_lo_even [OF _ p1, of "0.4907282704"] by simp
  have p4: "0.24081423536977551616 \<le> x ^ 4"
    using pow_lo_even [OF _ p2, of "0.24081423536977551616"] by simp
  have p8: "0.057991495956729641228335 \<le> x ^ 8"
    using pow_lo_even [OF _ p4, of "0.057991495956729641228335"] by simp
  have p16: "0.00336301360329939032662117 \<le> x ^ 16"
    using pow_lo_even [OF _ p8, of "0.00336301360329939032662117"] by simp
  show ?thesis
    by (rule p16)
qed

lemma root16_big_up:
  fixes x :: real
  assumes "0 \<le> x" and "x \<le> 0.32014"
  shows "x ^ 5 \<le> (0.70052::real) ^ 16"
proof -
  have "x ^ 5 \<le> 0.0033627896573384707097824"
    by (rule root16_big_up_left [OF assms])
  also have "\<dots> \<le> 0.00336301360329939032662117"
    by simp
  also have "\<dots> \<le> (0.70052::real) ^ 16"
    by (rule root16_big_up_right) simp
  finally show ?thesis .
qed

lemma round2_eq:
  assumes "of_int n / 100 - 0.005 < x" and "x < of_int n / 100 + 0.005"
  shows "round2 x = of_int n / 100"
proof -
  have lo: "of_int n - 1 / 2 < x * 100" and hi: "x * 100 < of_int n + 1 / 2"
    using assms by (simp_all add: field_simps)
  have "\<lfloor>x * 100\<rfloor> = n \<or> \<lfloor>x * 100\<rfloor> = n - 1"
    using lo hi by linarith
  then have "round_half_even (x * 100) = n"
  proof
    assume f: "\<lfloor>x * 100\<rfloor> = n"
    show ?thesis
      using hi by (simp add: round_half_even_def Let_def f)
  next
    assume f: "\<lfloor>x * 100\<rfloor> = n - 1"
    show ?thesis
      using lo by (simp add: round_half_even_def Let_def f)
  qed
  then show ?thesis
    by (simp add: round2_def)
qed

lemma sqrt2_bounds:
  "1.41421 \<le> (2::real) powr (1 / 2)" "(2::real) powr (1 / 2) \<le> 1.41422"
proof -
  have "(1.41421::real) \<le> 2 powr (real 1 / real 2)"
    by (rule powr_frac_ge) (simp_all add: power2_eq_square)
  then show "1.41421 \<le> (2::real) powr (1 / 2)"
    by simp
  have "(2::real) powr (real 1 / real 2) \<le> 1.41422"
    by (rule powr_frac_le) (simp_all add: power2_eq_square)
  then show "(2::real) powr (1 / 2) \<le> 1.41422"
    by simp
qed

lemma root_190_bounds:
  "17.05133 \<le> (190::real) powr (1 / 1.85)" "(190::real) powr (1 / 1.85) \<le> 17.05136"
proof -
  have "(17.05133::real) \<le> 190 powr (real 20 / real 37)"
    by (rule powr_frac_ge [OF _ _ _ root37_190_lo]) simp_all
  then show "17.05133 \<le> (190::real) powr (1 / 1.85)"
    by simp
  have "(190::real) powr (real 20 / real 37) \<le> 17.05136"
    by (rule powr_frac_le [OF _ _ _ root37_190_up]) simp_all
  then show "(190::real) powr (1 / 1.85) \<le> 17.05136"
    by simp
qed

lemma root_3_bounds:
  "1.81093 \<le> (3::real) powr (1 / 1.85)" "(3::real) powr (1 / 1.85) \<le> 1.81094"
proof -
  have "(1.81093::real) \<le> 3 powr (real 20 / real 37)"
    by (rule powr_frac_ge [OF _ _ _ root37_3_lo]) simp_all
  then show "1.81093 \<le> (3::real) powr (1 / 1.85)"
    by simp
  have "(3::real) powr (real 20 / real 37) \<le> 1.81094"
    by (rule powr_frac_le [OF _ _ _ root37_3_up]) simp_all
  then show "(3::real) powr (1 / 1.85) \<le> 1.81094"
    by simp
qed

lemma root_cp_bounds:
  "3.154419 \<le> (10000 / 101 :: real) powr (1 / 4)" "(10000 / 101 :: real) powr (1 / 4) \<le> 3.154423"
proof -
  have "(3.154419::real) \<le> (10000 / 101) powr (real 1 / real 4)"
    by (rule powr_frac_ge [OF _ _ _ root4_cp_lo]) simp_all
  then show "3.154419 \<le> (10000 / 101 :: real) powr (1 / 4)"
    by simp
  have "(10000 / 101 :: real) powr (real 1 / real 4) \<le> 3.154423"
    by (rule powr_frac_le [OF _ _ _ root4_cp_up]) simp_all
  then show "(10000 / 101 :: real) powr (1 / 4) \<le> 3.154423"
    by simp
qed

lemma pow_tenth: "(10000 / 100000000 :: real) powr (1 / 4) = 1 / 10"
proof -
  have e: "(1 / 10 :: real) powr 4 = 10000 / 100000000"
    by (simp add: power4_eq_xxxx)
  have "(10000 / 100000000 :: real) powr (1 / 4) = ((1 / 10) powr 4) powr (1 / 4)"
    by (simp only: e)
  also have "\<dots> = (1 / 10) powr (4 * (1 / 4))"
    by (simp only: powr_powr)
  also have "\<dots> = 1 / 10"
    by simp
  finally show ?thesis .
qed

text \<open>
  The spec's scenario: base rate 190, nothing caught yet, combat power 100 (so the
  denominator is 101), all three multipliers 1.
\<close>

lemma a_app_scenario:
  "67.23379 \<le> a_app 190 101 1 1 1" "a_app 190 101 1 1 1 \<le> 67.23401"
proof -
  define A where "A = (190::real) powr (1 / 1.85)"
  define B where "B = (10000 / 101 :: real) powr (1 / 4)"
  have A: "17.05133 \<le> A" "A \<le> 17.05136"
    unfolding A_def by (rule root_190_bounds)+
  have B: "3.154419 \<le> B" "B \<le> 3.154423"
    unfolding B_def by (rule root_cp_bounds)+
  have eq: "a_app 190 101 1 1 1 = 1.25 * (A * B)"
    by (simp add: a_app_def A_def B_def)
  have "17.05133 * 3.154419 \<le> A * B"
    using A B by (intro mult_mono) simp_all
  then show "67.23379 \<le> a_app 190 101 1 1 1"
    unfolding eq by simp
  have "A * B \<le> 17.05136 * 3.154423"
    using A B by (intro mult_mono) simp_all
  then show "a_app 190 101 1 1 1 \<le> 67.23401"
    unfolding eq by simp
qed

lemma b_app_scenario:
  assumes "67.23379 \<le> a" and "a \<le> 67.23401"
  shows "51033.04 \<le> b_app a" and "b_app a \<le> 51033.17"
proof -
  define P where "P = (255 / a) powr (1 / 5.33)"
  have pos: "0 < a"
    using assms by simp
  have r1: "3.792723355 \<le> 255 / a"
    using assms pos by (simp add: le_divide_eq)
  have r2: "255 / a \<le> 3.792735766"
    using assms pos by (simp add: divide_le_eq)
  have "(255 / a) powr (real 100 / real 533) \<le> 1.284168"
    by (rule powr_frac_le [OF _ _ _ root533_up [OF _ r2]]) (use pos in simp_all)
  then have up: "P \<le> 1.284168"
    by (simp add: P_def)
  have "1.284165 \<le> (255 / a) powr (real 100 / real 533)"
    by (rule powr_frac_ge [OF _ _ _ root533_lo [OF r1]]) (use pos in simp_all)
  then have lo: "1.284165 \<le> P"
    by (simp add: P_def)
  have P: "0 < P"
    using lo by simp
  have eq: "b_app a = 65535 / P"
    by (simp add: b_app_def P_def)
  have "51033.04 * P \<le> 65535"
    using up by simp
  then show "51033.04 \<le> b_app a"
    unfolding eq using P by (simp add: le_divide_eq)
  have "65535 \<le> 51033.17 * P"
    using lo by simp
  then show "b_app a \<le> 51033.17"
    unfolding eq using P by (simp add: divide_le_eq)
qed

lemma rate_app_scenario: "rate_app 190 101 1 1 1 = 77.87"
proof -
  define b where "b = b_app (a_app 190 101 1 1 1)"
  have b: "51033.04 \<le> b" "b \<le> 51033.17"
    unfolding b_def by (rule b_app_scenario [OF a_app_scenario])+
  have eq: "rate_app 190 101 1 1 1 = round2 (min 100 (b / 65535 * 100))"
    unfolding b_def by (rule rate_app_eq) simp_all
  have m: "min 100 (b / 65535 * 100) = b / 65535 * 100"
    using b by simp
  have r: "round2 (b / 65535 * 100) = of_int 7787 / 100"
    by (rule round2_eq) (use b in simp_all)
  show ?thesis
    unfolding eq m r by simp
qed

lemma catchrate_calc_app_scenario:
  "catchrate_calc_app demo_db ''pikachu'' 100 ''pokeball'' ''none'' ''None'' = Inr 77.87"
proof -
  have d: "cp_term 0 100 = 101"
    by (simp add: cp_term_def)
  show ?thesis
    using catchrate_calc_app_eq [OF demo_lookups(1) _ demo_lookups(5) demo_lookups(12)
        demo_lookups(9), of 100]
    by (simp add: d rate_app_scenario)
qed

lemma a_pc_scenario:
  "95.0827 \<le> a_pc 190 101 1 1 1" "a_pc 190 101 1 1 1 \<le> 95.0837"
proof -
  define A where "A = (190::real) powr (1 / 1.85)"
  define B where "B = (10000 / 101 :: real) powr (1 / 4)"
  define C where "C = (2::real) powr (1 / 2)"
  have A: "17.05133 \<le> A" "A \<le> 17.05136"
    unfolding A_def by (rule root_190_bounds)+
  have B: "3.154419 \<le> B" "B \<le> 3.154423"
    unfolding B_def by (rule root_cp_bounds)+
  have C: "1.41421 \<le> C" "C \<le> 1.41422"
    unfolding C_def by (rule sqrt2_bounds)+
  have eq: "a_pc 190 101 1 1 1 = 1.25 * (A * B * C)"
    by (simp add: a_pc_def A_def B_def C_def)
  have "17.05133 * 3.154419 * 1.41421 \<le> A * B * C"
    using A B C by (intro mult_mono) simp_all
  then show "95.0827 \<le> a_pc 190 101 1 1 1"
    unfolding eq by simp
  have "A * B * C \<le> 17.05136 * 3.154423 * 1.41422"
    using A B C by (intro mult_mono mult_nonneg_nonneg) simp_all
  then show "a_pc 190 101 1 1 1 \<le> 95.0837"
    unfolding eq by simp
qed

lemma rate_pc_scenario: "rate_pc 190 101 1 1 1 = Inr 75.91"
proof -
  define a where "a = a_pc 190 101 1 1 1"
  define Q where "Q = a powr (5 / 16)"
  define b where "b = b_pc a"
  have a: "95.0827 \<le> a" "a \<le> 95.0837"
    unfolding a_def by (rule a_pc_scenario)+
  have pos: "0 < a"
    using a by simp
  have "4.15103 \<le> a powr (real 5 / real 16)"
    by (rule powr_frac_ge [OF _ _ _ root16_scen_lo [OF a(1)]]) (use pos in simp_all)
  then have lo: "4.15103 \<le> Q"
    by (simp add: Q_def)
  have "a powr (real 5 / real 16) \<le> 4.15106"
    by (rule powr_frac_le [OF _ _ _ root16_scen_up [OF _ a(2)]]) (use pos in simp_all)
  then have up: "Q \<le> 4.15106"
    by (simp add: Q_def)
  have Q: "0 < Q"
    using lo by simp
  have bQ: "b = 65535 / Q"
    by (simp add: b_def b_pc_def Q_def)
  have "15787.4 * Q \<le> 65535"
    using up by simp
  then have b1: "15787.4 \<le> b"
    unfolding bQ using Q by (simp add: le_divide_eq)
  have "65535 \<le> 15787.7 * Q"
    using lo by simp
  then have b2: "b \<le> 15787.7"
    unfolding bQ using Q by (simp add: divide_le_eq)
  have eq: "rate_pc 190 101 1 1 1 = Inr (round2 (min 100 ((1 - b / 65536) * 100)))"
    unfolding b_def a_def by (rule rate_pc_eq) simp_all
  have m: "min 100 ((1 - b / 65536) * 100) = (1 - b / 65536) * 100"
    using b1 by simp
  have r: "round2 ((1 - b / 65536) * 100) = of_int 7591 / 100"
    by (rule round2_eq) (use b1 b2 in simp_all)
  show ?thesis
    unfolding eq m r by simp
qed

lemma catchrate_calc_pc_scenario:
  "catchrate_calc_pc demo_db ''pikachu'' 100 ''pokeball'' ''none'' ''None'' = Inr 75.91"
proof -
  have d: "cp_term 0 100 = 101"
    by (simp add: cp_term_def)
  show ?thesis
    using catchrate_calc_pc_eq [OF demo_lookups(1) _ demo_lookups(5) demo_lookups(12)
        demo_lookups(9), of 100]
    by (simp add: d rate_pc_scenario)
qed

text \<open>A legendary species (base rate 3) at a combat power of 99999999.\<close>

lemma a_pc_big:
  "0.32012 \<le> a_pc 3 100000000 1 1 1" "a_pc 3 100000000 1 1 1 \<le> 0.32014"
proof -
  define A where "A = (3::real) powr (1 / 1.85)"
  define C where "C = (2::real) powr (1 / 2)"
  have A: "1.81093 \<le> A" "A \<le> 1.81094"
    unfolding A_def by (rule root_3_bounds)+
  have C: "1.41421 \<le> C" "C \<le> 1.41422"
    unfolding C_def by (rule sqrt2_bounds)+
  have "a_pc 3 100000000 1 1 1
      = 1.25 * A * (10000 / 100000000) powr (1 / 4) * 1 powr (3 / 2) * C"
    by (simp only: a_pc_def A_def C_def one_add_one)
  then have eq: "a_pc 3 100000000 1 1 1 = 0.125 * (A * C)"
    by (simp only: pow_tenth) simp
  have "1.81093 * 1.41421 \<le> A * C"
    using A C by (intro mult_mono) simp_all
  then show "0.32012 \<le> a_pc 3 100000000 1 1 1"
    unfolding eq by simp
  have "A * C \<le> 1.81094 * 1.41422"
    using A C by (intro mult_mono) simp_all
  then show "a_pc 3 100000000 1 1 1 \<le> 0.32014"
    unfolding eq by simp
qed

lemma rate_pc_big: "rate_pc 3 100000000 1 1 1 = Inr (- 42.75)"
proof -
  define a where "a = a_pc 3 100000000 1 1 1"
  define Q where "Q = a powr (5 / 16)"
  define b where "b = b_pc a"
  have a: "0.32012 \<le> a" "a \<le> 0.32014"
    unfolding a_def by (rule a_pc_big)+
  have pos: "0 < a"
    using a by simp
  have "0.7005 \<le> a powr (real 5 / real 16)"
    by (rule powr_frac_ge [OF _ _ _ root16_big_lo [OF a(1)]]) (use pos in simp_all)
  then have lo: "0.7005 \<le> Q"
    by (simp add: Q_def)
  have "a powr (real 5 / real 16) \<le> 0.70052"
    by (rule powr_frac_le [OF _ _ _ root16_big_up [OF _ a(2)]]) (use pos in simp_all)
  then have up: "Q \<le> 0.70052"
    by (simp add: Q_def)
  have Q: "0 < Q"
    using lo by simp
  have bQ: "b = 65535 / Q"
    by (simp add: b_def b_pc_def Q_def)
  have "93551 * Q \<le> 65535"
    using up by simp
  then have b1: "93551 \<le> b"
    unfolding bQ using Q by (simp add: le_divide_eq)
  have "65535 \<le> 93555 * Q"
    using lo by simp
  then have b2: "b \<le> 93555"
    unfolding bQ using Q by (simp add: divide_le_eq)
  have eq: "rate_pc 3 100000000 1 1 1 = Inr (round2 (min 100 ((1 - b / 65536) * 100)))"
    unfolding b_def a_def by (rule rate_pc_eq) simp_all
  have m: "min 100 ((1 - b / 65536) * 100) = (1 - b / 65536) * 100"
    using b1 by simp
  have r: "round2 ((1 - b / 65536) * 100) = of_int (- 4275) / 100"
    by (rule round2_eq) (use b1 b2 in simp_all)
  show ?thesis
    unfolding eq m r by simp
qed

lemma catchrate_calc_pc_big:
  "catchrate_calc_pc demo_db ''mewtwo'' 99999999 ''pokeball'' ''none'' ''None'' = Inr (- 42.75)"
proof -
  have d: "cp_term 0 99999999 = 100000000"
    by (simp add: cp_term_def)
  show ?thesis
    using catchrate_calc_pc_eq [OF demo_lookups(2) _ demo_lookups(5) demo_lookups(12)
        demo_lookups(9), of 99999999]
    by (simp add: d rate_pc_big)
qed

section \<open>Range of the rate\<close>

text \<open>
  C1 fails as stated for the additive formula, which is clamped from above only: a
  species with base rate 3 at combat power 99999999 gets the rate -42.75.
\<close>

theorem additive_rate_negative:
  "catchrate_calc_pc demo_db ''mewtwo'' 99999999 ''pokeball'' ''none'' ''None'' = Inr (- 42.75)"
  by (rule catchrate_calc_pc_big)

text \<open>
  C1, amended. For known identifiers, positive table entries and a positive combat power
  the multiplicative formula returns a rate between 0 and 100; the additive formula
  returns a rate of at most 100, and of at least 0 whenever its \<^verbatim>\<open>a\<close> is at least 1.
\<close>

theorem catchrate_calc_range:
  assumes "pokemon_dict db pokemon = Some p" and "0 < catch_rate p"
    and "ballrate_dict db ball = Some bl" and "0 < bl"
    and "map_of (technique_dict db) tech = Some t" and "0 < t"
    and "berry_dict db berry = Some br" and "0 < br"
    and "0 < cp"
  shows "(\<exists>r. catchrate_calc_app db pokemon cp ball berry tech = Inr r \<and> 0 \<le> r \<and> r \<le> 100)
       \<and> (\<exists>r. catchrate_calc_pc db pokemon cp ball berry tech = Inr r \<and> r \<le> 100
             \<and> (1 \<le> a_pc (catch_rate p) (cp_term (times_caught p) cp) bl t br \<longrightarrow> 0 \<le> r))"
proof -
  have d: "0 < cp_term (times_caught p) cp"
    using cp_term_pos [OF \<open>0 < cp\<close>, of "times_caught p"] by simp
  then have d0: "cp_term (times_caught p) cp \<noteq> 0"
    by simp
  show ?thesis
    unfolding catchrate_calc_app_eq [OF assms(1) d0 assms(3) assms(5) assms(7)]
      catchrate_calc_pc_eq [OF assms(1) d0 assms(3) assms(5) assms(7)]
    using rate_app_range [OF assms(2) d assms(4) assms(6) assms(8)]
      rate_pc_range [OF assms(2) d assms(4) assms(6) assms(8)]
    by simp
qed

theorem catchrate_calc_range_witness:
  "(\<exists>r. catchrate_calc_app demo_db ''pikachu'' 100 ''pokeball'' ''none'' ''None'' = Inr r
        \<and> 0 \<le> r \<and> r \<le> 100)
   \<and> (\<exists>r. catchrate_calc_pc demo_db ''pikachu'' 100 ''pokeball'' ''none'' ''None'' = Inr r
        \<and> r \<le> 100 \<and> 0 \<le> r)"
proof -
  have "1 \<le> a_pc 190 (cp_term 0 100) 1 1 1"
    by (rule one_le_a_pc) (simp_all add: cp_term_def)
  then show ?thesis
    using catchrate_calc_range [OF demo_lookups(1) _ demo_lookups(5) _ demo_lookups(12) _
        demo_lookups(9), of 100]
    by simp
qed

section \<open>The two formulas\<close>

text \<open>
  C2. The two formulas are different functions: on the sample data, for base rate 190,
  nothing caught, combat power 100 and all multipliers 1, the multiplicative one returns
  77.87 and the additive one 75.91.
\<close>

theorem formulas_differ:
  "catchrate_calc_app demo_db ''pikachu'' 100 ''pokeball'' ''none'' ''None'' = Inr 77.87
   \<and> catchrate_calc_pc demo_db ''pikachu'' 100 ''pokeball'' ''none'' ''None'' = Inr 75.91
   \<and> catchrate_calc_app \<noteq> catchrate_calc_pc"
proof -
  have 1: "catchrate_calc_app demo_db ''pikachu'' 100 ''pokeball'' ''none'' ''None'' = Inr 77.87"
    by (rule catchrate_calc_app_scenario)
  have 2: "catchrate_calc_pc demo_db ''pikachu'' 100 ''pokeball'' ''none'' ''None'' = Inr 75.91"
    by (rule catchrate_calc_pc_scenario)
  have "catchrate_calc_app \<noteq> catchrate_calc_pc"
  proof
    assume "catchrate_calc_app = catchrate_calc_pc"
    then have "Inr (77.87::real) = (Inr 75.91 :: py_error + real)"
      using 1 2 by simp
    then show False
      by simp
  qed
  with 1 2 show ?thesis
    by simp
qed

section \<open>The spec's scenario\<close>

text \<open>
  C9 fails as stated: for base rate 190, nothing caught, combat power 100 and all
  multipliers 1 the scale factor is not within 0.005 of 67.26, the residual is not within
  0.05 of 51038.9, and the returned rate is not 77.91.
\<close>

theorem spec_numbers_not_computed:
  "\<not> (67.255 \<le> a_app 190 (cp_term 0 100) 1 1 1 \<and> a_app 190 (cp_term 0 100) 1 1 1 \<le> 67.265)
   \<and> \<not> (51038.85 \<le> b_app (a_app 190 (cp_term 0 100) 1 1 1)
        \<and> b_app (a_app 190 (cp_term 0 100) 1 1 1) \<le> 51038.95)
   \<and> catchrate_calc_app demo_db ''pikachu'' 100 ''pokeball'' ''none'' ''None'' \<noteq> Inr 77.91"
proof -
  have d: "cp_term 0 100 = 101"
    by (simp add: cp_term_def)
  have "a_app 190 101 1 1 1 \<le> 67.23401"
    by (rule a_app_scenario)
  moreover have "b_app (a_app 190 101 1 1 1) \<le> 51033.17"
    by (rule b_app_scenario [OF a_app_scenario])
  ultimately show ?thesis
    unfolding d by (simp add: catchrate_calc_app_scenario)
qed

text \<open>
  C9, amended. In that scenario the scale factor \<^verbatim>\<open>a\<close> lies between 67.233 and 67.235,
  the residual \<^verbatim>\<open>b\<close> between 51033.0 and 51033.2, the returned rate is 77.87, and the
  ring colour for it is gold, the tier from 75 up to 80.
\<close>

theorem scenario_values:
  "67.233 < a_app 190 (cp_term 0 100) 1 1 1 \<and> a_app 190 (cp_term 0 100) 1 1 1 < 67.235
   \<and> 51033 < b_app (a_app 190 (cp_term 0 100) 1 1 1)
   \<and> b_app (a_app 190 (cp_term 0 100) 1 1 1) < 51033.2
   \<and> catchrate_calc_app demo_db ''pikachu'' 100 ''pokeball'' ''none'' ''None'' = Inr 77.87
   \<and> catchring_color 77.87 = ''gold''"
proof -
  have d: "cp_term 0 100 = 101"
    by (simp add: cp_term_def)
  have a: "67.23379 \<le> a_app 190 101 1 1 1" "a_app 190 101 1 1 1 \<le> 67.23401"
    by (rule a_app_scenario)+
  have b: "51033.04 \<le> b_app (a_app 190 101 1 1 1)" "b_app (a_app 190 101 1 1 1) \<le> 51033.17"
    by (rule b_app_scenario [OF a_app_scenario])+
  show ?thesis
    unfolding d using a b by (simp add: catchrate_calc_app_scenario catchring_color_def)
qed

section \<open>Ring colour: thresholds\<close>

text \<open>
  C5. For every real rate \<open>p\<close>: below 70 the ring is red, from 70 up to but excluding 75
  orange, from 75 up to but excluding 80 gold, and from 80 on green; the boundary values
  70, 75 and 80 fall into the upper interval and 69.99 is red.
\<close>

theorem catchring_color_thresholds:
  "catchring_color p =
     (if p < 70 then ''red'' else if p < 75 then ''orange''
      else if p < 80 then ''gold'' else ''green'')
   \<and> catchring_color 70.0 = ''orange'' \<and> catchring_color 69.99 = ''red''
   \<and> catchring_color 75.0 = ''gold'' \<and> catchring_color 80.0 = ''green''"
  by (simp add: catchring_color_def)

section \<open>Monotonicity in the multipliers\<close>

text \<open>
  C6. With the species, its stored count and a positive combat power fixed, and all table
  entries involved positive: replacing the ball, the technique and the berry by ones whose
  multipliers are not smaller does not lower the returned rate, in the multiplicative and
  in the additive formula. Taking two of the three replacements to be the identity gives
  the statement for each multiplier alone.
\<close>

theorem catchrate_calc_monotone:
  assumes "pokemon_dict db pokemon = Some p" and "0 < catch_rate p" and "0 < cp"
    and "ballrate_dict db ball = Some bl" and "ballrate_dict db ball' = Some bl'"
    and "0 < bl" and "bl \<le> bl'"
    and "map_of (technique_dict db) tech = Some t" and "map_of (technique_dict db) tech' = Some t'"
    and "0 < t" and "t \<le> t'"
    and "berry_dict db berry = Some br" and "berry_dict db berry' = Some br'"
    and "0 < br" and "br \<le> br'"
  shows "(\<exists>r r'. catchrate_calc_app db pokemon cp ball berry tech = Inr r
            \<and> catchrate_calc_app db pokemon cp ball' berry' tech' = Inr r' \<and> r \<le> r')
       \<and> (\<exists>r r'. catchrate_calc_pc db pokemon cp ball berry tech = Inr r
            \<and> catchrate_calc_pc db pokemon cp ball' berry' tech' = Inr r' \<and> r \<le> r')"
proof -
  have d: "0 < cp_term (times_caught p) cp"
    using cp_term_pos [OF \<open>0 < cp\<close>, of "times_caught p"] by simp
  then have d0: "cp_term (times_caught p) cp \<noteq> 0"
    by simp
  have "rate_app (catch_rate p) (cp_term (times_caught p) cp) bl t br
      \<le> rate_app (catch_rate p) (cp_term (times_caught p) cp) bl' t' br'"
    using assms d by (intro rate_app_mono)
  moreover have "\<exists>r r'. rate_pc (catch_rate p) (cp_term (times_caught p) cp) bl t br = Inr r
      \<and> rate_pc (catch_rate p) (cp_term (times_caught p) cp) bl' t' br' = Inr r' \<and> r \<le> r'"
    using assms d by (intro rate_pc_mono)
  ultimately show ?thesis
    using assms d0 by (simp add: catchrate_calc_app_eq catchrate_calc_pc_eq)
qed

theorem catchrate_calc_monotone_witness:
  "(\<exists>r r'. catchrate_calc_app demo_db ''pikachu'' 100 ''pokeball'' ''none'' ''None'' = Inr r
        \<and> catchrate_calc_app demo_db ''pikachu'' 100 ''ultraball'' ''razz'' ''Great'' = Inr r'
        \<and> r \<le> r')
   \<and> (\<exists>r r'. catchrate_calc_pc demo_db ''pikachu'' 100 ''pokeball'' ''none'' ''None'' = Inr r
        \<and> catchrate_calc_pc demo_db ''pikachu'' 100 ''ultraball'' ''razz'' ''Great'' = Inr r'
        \<and> r \<le> r')"
  using catchrate_calc_monotone [OF demo_lookups(1) _ _ demo_lookups(5) demo_lookups(7) _ _
      demo_lookups(12) demo_lookups(14) _ _ demo_lookups(9) demo_lookups(10), of 100]
  by simp

section \<open>The stored count and the cap\<close>

text \<open>
  C7. \<^verbatim>\<open>catchrate_calc\<close> of \<^verbatim>\<open>app.py\<close> reads the stored count only through
  \<open>min 100\<close>: replacing the stored value \<open>v\<close> by \<open>min 100 v\<close> (which is 100 for every
  \<open>v \<ge> 100\<close>) leaves the result as it is. The stored count itself has no cap: the
  capture event stores \<open>v + 1\<close> whatever \<open>v\<close> is.
\<close>

theorem times_caught_cap:
  assumes "pokemon_dict (db_app s) name = Some p"
  shows "catchrate_calc_app (db_app s) name cp ball berry tech
       = catchrate_calc_app
           ((db_app s)\<lparr>pokemon_dict := (pokemon_dict (db_app s))
               (name \<mapsto> p\<lparr>times_caught := min 100 (times_caught p)\<rparr>)\<rparr>) name cp ball berry tech
     \<and> (\<exists>s'. triggers_handler (Some ''add1_btn'') s (Some ''add1_btn'') name shinyradio = Inr s'
           \<and> map_option times_caught (pokemon_dict (db_app s') name) = Some (times_caught p + 1))"
  using assms
  by (auto simp: catchrate_calc_app_def cp_term_def triggers_handler_def Let_def
      split: option.splits)

theorem times_caught_cap_witness:
  "catchrate_calc_app (db_app demo_app) ''alola-raichu'' 500 ''pokeball'' ''none'' ''None''
   = catchrate_calc_app
       ((db_app demo_app)\<lparr>pokemon_dict := (pokemon_dict (db_app demo_app))
           (''alola-raichu'' \<mapsto> \<lparr>catch_rate = 75, times_caught = 100, shiny_caught = ''Yes''\<rparr>)\<rparr>)
       ''alola-raichu'' 500 ''pokeball'' ''none'' ''None''
   \<and> (\<exists>s'. triggers_handler (Some ''add1_btn'') demo_app (Some ''add1_btn'') ''alola-raichu'' ''Yes'' = Inr s'
         \<and> map_option times_caught (pokemon_dict (db_app s') ''alola-raichu'') = Some 121)"
proof -
  have "pokemon_dict (db_app demo_app) ''alola-raichu''
      = Some \<lparr>catch_rate = 75, times_caught = 120, shiny_caught = ''Yes''\<rparr>"
    by (simp add: demo_app_def demo_lookups)
  from times_caught_cap [OF this, of 500 "''pokeball''" "''none''" "''None''" "''Yes''"]
  show ?thesis
    by simp
qed

text \<open>
  C10. In the multiplicative formula, once the stored count is at least 100 the
  denominator of the combat-power term is 1, so the term is \<open>(10000 / 1) powr (1 / 4)\<close>
  and the result is the same for any two combat powers.
\<close>

theorem catchrate_calc_app_cp_independent:
  assumes "pokemon_dict db pokemon = Some p" and "100 \<le> times_caught p"
  shows "cp_term (times_caught p) cp1 = 1
       \<and> catchrate_calc_app db pokemon cp1 ball berry tech
         = catchrate_calc_app db pokemon cp2 ball berry tech"
  using assms by (simp add: catchrate_calc_app_def cp_term_def Let_def)

theorem catchrate_calc_app_cp_independent_witness:
  "cp_term 120 10 = 1
   \<and> catchrate_calc_app demo_db ''alola-raichu'' 10 ''pokeball'' ''none'' ''Nice''
     = catchrate_calc_app demo_db ''alola-raichu'' 1000 ''pokeball'' ''none'' ''Nice''"
  using catchrate_calc_app_cp_independent [OF demo_lookups(3), of 10 "''pokeball''" "''none''" "''Nice''" 1000]
  by simp

section \<open>The chain\<close>

text \<open>
  C4. From any state in which the species \<open>A\<close> and \<open>B\<close> are known and differ: a capture
  of \<open>A\<close> right after a capture of \<open>A\<close> raises the streak by one; a capture of \<open>B\<close>
  right after a capture of \<open>A\<close> sets the streak to 1 and the last species to \<open>B\<close>; a
  reset sets the streak to 0 and the text to "No chain". This holds for
  \<^verbatim>\<open>triggers_handler\<close> of \<^verbatim>\<open>app.py\<close> and for the trigger block of
  \<^verbatim>\<open>pokemon_catchrate.py\<close>, whose reset text is \<^verbatim>\<open>chaintext_init\<close>, the
  "No chain" cell that no event assigns.
\<close>

theorem chain_law:
  assumes "pokemon_dict (db_app s) A = Some pa" and "pokemon_dict (db_app s) B = Some pb"
    and "pokemon_dict (db_pc u) A = Some qa" and "pokemon_dict (db_pc u) B = Some qb"
    and "A \<noteq> B"
    and "chaintext_init (chain_pc u) = Td ''No chain'' normal_style"
  shows "\<exists>s1 s2 s3 s4 u1 u2 u3 u4.
      triggers_handler (Some ''add1_btn'') s (Some ''add1_btn'') A sr = Inr s1
    \<and> triggers_handler (Some ''add1_btn'') s1 (Some ''add1_btn'') A sr = Inr s2
    \<and> chainvalue (pokemonchain_dict s2) = chainvalue (pokemonchain_dict s1) + 1
    \<and> pokemonname (pokemonchain_dict s2) = A
    \<and> triggers_handler (Some ''add1_btn'') s1 (Some ''add1_btn'') B sr = Inr s3
    \<and> chainvalue (pokemonchain_dict s3) = 1 \<and> pokemonname (pokemonchain_dict s3) = B
    \<and> triggers_handler (Some ''resetchain_btn'') s (Some ''resetchain_btn'') A sr = Inr s4
    \<and> chainvalue (pokemonchain_dict s4) = 0 \<and> chaintext (pokemonchain_dict s4) = ''No chain''
    \<and> chaintext_app s4 = Td ''No chain'' normal_style
    \<and> update_triggers_pc (Some ''add1_btn'') u A sr = Inr u1
    \<and> update_triggers_pc (Some ''add1_btn'') u1 A sr = Inr u2
    \<and> chainvalue_pc (chain_pc u2) = chainvalue_pc (chain_pc u1) + 1
    \<and> last_catch (chain_pc u2) = A
    \<and> update_triggers_pc (Some ''add1_btn'') u1 B sr = Inr u3
    \<and> chainvalue_pc (chain_pc u3) = 1 \<and> last_catch (chain_pc u3) = B
    \<and> update_triggers_pc (Some ''resetchain_btn'') u A sr = Inr u4
    \<and> chainvalue_pc (chain_pc u4) = 0 \<and> chaintext_pc (chain_pc u4) = Td ''No chain'' normal_style"
  using assms by (simp add: triggers_handler_def update_triggers_pc_def Let_def)

theorem chain_law_witness:
  "\<exists>s1 s2 s3 s4 u1 u2 u3 u4.
      triggers_handler (Some ''add1_btn'') demo_app (Some ''add1_btn'') ''pikachu'' ''No'' = Inr s1
    \<and> triggers_handler (Some ''add1_btn'') s1 (Some ''add1_btn'') ''pikachu'' ''No'' = Inr s2
    \<and> chainvalue (pokemonchain_dict s2) = chainvalue (pokemonchain_dict s1) + 1
    \<and> pokemonname (pokemonchain_dict s2) = ''pikachu''
    \<and> triggers_handler (Some ''add1_btn'') s1 (Some ''add1_btn'') ''mewtwo'' ''No'' = Inr s3
    \<and> chainvalue (pokemonchain_dict s3) = 1 \<and> pokemonname (pokemonchain_dict s3) = ''mewtwo''
    \<and> triggers_handler (Some ''resetchain_btn'') demo_app (Some ''resetchain_btn'') ''pikachu'' ''No'' = Inr s4
    \<and> chainvalue (pokemonchain_dict s4) = 0 \<and> chaintext (pokemonchain_dict s4) = ''No chain''
    \<and> chaintext_app s4 = Td ''No chain'' normal_style
    \<and> update_triggers_pc (Some ''add1_btn'') demo_pc ''pikachu'' ''No'' = Inr u1
    \<and> update_triggers_pc (Some ''add1_btn'') u1 ''pikachu'' ''No'' = Inr u2
    \<and> chainvalue_pc (chain_pc u2) = chainvalue_pc (chain_pc u1) + 1
    \<and> last_catch (chain_pc u2) = ''pikachu''
    \<and> update_triggers_pc (Some ''add1_btn'') u1 ''mewtwo'' ''No'' = Inr u3
    \<and> chainvalue_pc (chain_pc u3) = 1 \<and> last_catch (chain_pc u3) = ''mewtwo''
    \<and> update_triggers_pc (Some ''resetchain_btn'') demo_pc ''pikachu'' ''No'' = Inr u4
    \<and> chainvalue_pc (chain_pc u4) = 0 \<and> chaintext_pc (chain_pc u4) = Td ''No chain'' normal_style"
  by (rule chain_law [where pa = "\<lparr>catch_rate = 190, times_caught = 0, shiny_caught = ''No''\<rparr>"
        and pb = "\<lparr>catch_rate = 3, times_caught = 0, shiny_caught = ''No''\<rparr>"
        and qa = "\<lparr>catch_rate = 190, times_caught = 0, shiny_caught = ''No''\<rparr>"
        and qb = "\<lparr>catch_rate = 3, times_caught = 0, shiny_caught = ''No''\<rparr>"])
    (simp_all add: demo_app_def demo_pc_def demo_lookups chain_dict_init_def)

section \<open>Unresolved identifiers\<close>

text \<open>
  C3 fails as stated. An unresolved identifier is not an error of \<^verbatim>\<open>catch_pokemon\<close>:
  the call returns \<^verbatim>\<open>None\<close> after printing a message that names the kind of
  identifier, not the identifier. And the state does change in a call with an unresolved
  ball: under the capture button the callback first counts the capture (stored count 0
  to 1, chain 2 to 3) and then raises \<^verbatim>\<open>TypeError\<close>, which names nothing.
\<close>

theorem unresolved_is_no_error:
  "catch_pokemon_app demo_db ''missingno'' 100 ''pokeball'' ''none''
     = Inr (Printed_None ''Pokemon not found'')
   \<and> snd (snd (update_catchrates_app (Some ''add1_btn'') demo_app ''pikachu'' 100 ''masterball''
        ''none'' ''No'')) = Inl TypeError
   \<and> map_option times_caught (pokemon_dict (db_app (fst (update_catchrates_app (Some ''add1_btn'')
        demo_app ''pikachu'' 100 ''masterball'' ''none'' ''No''))) ''pikachu'') = Some 1
   \<and> map_option times_caught (pokemon_dict (db_app demo_app) ''pikachu'') = Some 0
   \<and> chainvalue (pokemonchain_dict (fst (update_catchrates_app (Some ''add1_btn'')
        demo_app ''pikachu'' 100 ''masterball'' ''none'' ''No''))) = 3
   \<and> chainvalue (pokemonchain_dict demo_app) = 2"
  by (simp add: catch_pokemon_app_def update_catchrates_app_def triggers_handler_def Let_def
      demo_app_def demo_db_def domIff)

text \<open>
  C3, amended. When the species, the ball or the berry is not a key of its table,
  \<^verbatim>\<open>catch_pokemon\<close> raises nothing and produces no rate: it prints
  "Pokemon not found", "Ball not found" or "Berry not found" (the first unresolved kind,
  in this order) and returns \<^verbatim>\<open>None\<close>. The techniques are the keys of
  \<^verbatim>\<open>technique_dict\<close> themselves; \<^verbatim>\<open>catchrate_calc\<close> on any other technique ends
  in an exception and no rate. In the callback an unknown species raises
  \<^verbatim>\<open>KeyError\<close> of that species with the data base as it was, and with the chain as
  it was unless the event is the chain reset. With a known species and an unknown ball
  or berry the callback raises \<^verbatim>\<open>TypeError\<close>, and the state is the one the trigger
  handler has left.
\<close>

theorem unresolved_identifier:
  "(pokemon \<notin> dom (pokemon_dict db) \<longrightarrow>
      catch_pokemon_app db pokemon cp ball berry = Inr (Printed_None ''Pokemon not found'')
    \<and> catch_pokemon_pc db pokemon cp ball berry = Inr (Printed_None ''Pokemon not found''))
 \<and> (pokemon \<in> dom (pokemon_dict db) \<and> ball \<notin> dom (ballrate_dict db) \<longrightarrow>
      catch_pokemon_app db pokemon cp ball berry = Inr (Printed_None ''Ball not found'')
    \<and> catch_pokemon_pc db pokemon cp ball berry = Inr (Printed_None ''Ball not found''))
 \<and> (pokemon \<in> dom (pokemon_dict db) \<and> ball \<in> dom (ballrate_dict db)
      \<and> berry \<notin> dom (berry_dict db) \<longrightarrow>
      catch_pokemon_app db pokemon cp ball berry = Inr (Printed_None ''Berry not found'')
    \<and> catch_pokemon_pc db pokemon cp ball berry = Inr (Printed_None ''Berry not found''))
 \<and> (map_of (technique_dict db) technique = None \<longrightarrow>
      (\<exists>e. catchrate_calc_app db pokemon cp ball berry technique = Inl e
          \<and> catchrate_calc_pc db pokemon cp ball berry technique = Inl e
          \<and> (e = KeyError technique \<or> e = KeyError pokemon \<or> e = KeyError ball
               \<or> e = ZeroDivisionError)))
 \<and> (pokemon \<notin> dom (pokemon_dict (db_app s)) \<longrightarrow>
      snd (snd (update_catchrates_app triggered_id s pokemon cp ball berry sr))
        = Inl (KeyError pokemon)
    \<and> db_app (fst (update_catchrates_app triggered_id s pokemon cp ball berry sr)) = db_app s
    \<and> (triggered_id \<noteq> Some ''resetchain_btn'' \<longrightarrow>
         pokemonchain_dict (fst (update_catchrates_app triggered_id s pokemon cp ball berry sr))
           = pokemonchain_dict s))
 \<and> (pokemon \<notin> dom (pokemon_dict (db_pc u)) \<longrightarrow>
      snd (snd (update_catchrates_pc triggered_id u pokemon cp ball berry sr))
        = Inl (KeyError pokemon)
    \<and> db_pc (fst (update_catchrates_pc triggered_id u pokemon cp ball berry sr)) = db_pc u
    \<and> (triggered_id \<noteq> Some ''resetchain_btn'' \<longrightarrow>
         fst (update_catchrates_pc triggered_id u pokemon cp ball berry sr) = u))
 \<and> (pokemon \<in> dom (pokemon_dict (db_app s))
      \<and> (ball \<notin> dom (ballrate_dict (db_app s)) \<or> berry \<notin> dom (berry_dict (db_app s))) \<longrightarrow>
      snd (snd (update_catchrates_app triggered_id s pokemon cp ball berry sr)) = Inl TypeError
    \<and> triggers_handler triggered_id
         (if INIT_STATE s
          then s\<lparr>chaintext_app := Td (chaintext (pokemonchain_dict s)) bold_style,
                 INIT_STATE := False\<rparr>
          else s) triggered_id pokemon sr
        = Inr (fst (update_catchrates_app triggered_id s pokemon cp ball berry sr)))
 \<and> (pokemon \<in> dom (pokemon_dict (db_pc u))
      \<and> (ball \<notin> dom (ballrate_dict (db_pc u)) \<or> berry \<notin> dom (berry_dict (db_pc u))) \<longrightarrow>
      snd (snd (update_catchrates_pc triggered_id u pokemon cp ball berry sr)) = Inl TypeError
    \<and> update_triggers_pc triggered_id u pokemon sr
        = Inr (fst (update_catchrates_pc triggered_id u pokemon cp ball berry sr)))"
proof (intro conjI impI)
  assume "map_of (technique_dict db) technique = None"
  then show "\<exists>e. catchrate_calc_app db pokemon cp ball berry technique = Inl e
          \<and> catchrate_calc_pc db pokemon cp ball berry technique = Inl e
          \<and> (e = KeyError technique \<or> e = KeyError pokemon \<or> e = KeyError ball
               \<or> e = ZeroDivisionError)"
    by (auto simp: catchrate_calc_app_def catchrate_calc_pc_def Let_def split: option.splits)
next
  assume a: "pokemon \<notin> dom (pokemon_dict (db_pc u))"
  then show "snd (snd (update_catchrates_pc triggered_id u pokemon cp ball berry sr))
      = Inl (KeyError pokemon)"
    by (auto simp: update_catchrates_pc_def update_triggers_pc_def Let_def domIff
        split: option.splits)
  from a show "db_pc (fst (update_catchrates_pc triggered_id u pokemon cp ball berry sr)) = db_pc u"
    by (auto simp: update_catchrates_pc_def update_triggers_pc_def Let_def domIff
        split: option.splits)
  assume "triggered_id \<noteq> Some ''resetchain_btn''"
  with a show "fst (update_catchrates_pc triggered_id u pokemon cp ball berry sr) = u"
    by (auto simp: update_catchrates_pc_def update_triggers_pc_def Let_def domIff
        split: option.splits)
next
  assume a: "pokemon \<notin> dom (pokemon_dict (db_app s))"
  then show "snd (snd (update_catchrates_app triggered_id s pokemon cp ball berry sr))
      = Inl (KeyError pokemon)"
    by (auto simp: update_catchrates_app_def triggers_handler_def Let_def domIff
        split: option.splits)
  from a show "db_app (fst (update_catchrates_app triggered_id s pokemon cp ball berry sr)) = db_app s"
    by (auto simp: update_catchrates_app_def triggers_handler_def Let_def domIff
        split: option.splits)
  assume "triggered_id \<noteq> Some ''resetchain_btn''"
  with a show "pokemonchain_dict (fst (update_catchrates_app triggered_id s pokemon cp ball berry sr))
        = pokemonchain_dict s"
    by (auto simp: update_catchrates_app_def triggers_handler_def Let_def domIff
        split: option.splits)
next
  assume a: "pokemon \<in> dom (pokemon_dict (db_app s))
      \<and> (ball \<notin> dom (ballrate_dict (db_app s)) \<or> berry \<notin> dom (berry_dict (db_app s)))"
  let ?s0 = "if INIT_STATE s
          then s\<lparr>chaintext_app := Td (chaintext (pokemonchain_dict s)) bold_style,
                 INIT_STATE := False\<rparr>
          else s"
  have db0: "db_app ?s0 = db_app s"
    by simp
  from a obtain p where p: "pokemon_dict (db_app ?s0) pokemon = Some p"
    unfolding db0 by auto
  from triggers_handler_known [OF p, of triggered_id sr]
  obtain s1 where s1: "triggers_handler triggered_id ?s0 triggered_id pokemon sr = Inr s1"
      "pokemon \<in> dom (pokemon_dict (db_app s1))"
      "ballrate_dict (db_app s1) = ballrate_dict (db_app ?s0)"
      "berry_dict (db_app s1) = berry_dict (db_app ?s0)"
    by blast
  have "ball \<notin> dom (ballrate_dict (db_app s1)) \<or> berry \<notin> dom (berry_dict (db_app s1))"
    using a unfolding s1(3,4) db0 by auto
  from catch_pokemon_unresolved [OF s1(2) this, of cp]
  obtain msg where msg: "catch_pokemon_app (db_app s1) pokemon cp ball berry = Inr (Printed_None msg)"
    by blast
  from s1(2) obtain q where q: "pokemon_dict (db_app s1) pokemon = Some q"
    by auto
  have r: "update_catchrates_app triggered_id s pokemon cp ball berry sr = (s1, [msg], Inl TypeError)"
    unfolding update_catchrates_app_def Let_def using s1(1) q msg by simp
  show "snd (snd (update_catchrates_app triggered_id s pokemon cp ball berry sr)) = Inl TypeError"
    by (simp add: r)
  show "triggers_handler triggered_id ?s0 triggered_id pokemon sr
        = Inr (fst (update_catchrates_app triggered_id s pokemon cp ball berry sr))"
    by (simp only: r s1(1) fst_conv)
next
  assume a: "pokemon \<in> dom (pokemon_dict (db_pc u))
      \<and> (ball \<notin> dom (ballrate_dict (db_pc u)) \<or> berry \<notin> dom (berry_dict (db_pc u)))"
  from a obtain p where p: "pokemon_dict (db_pc u) pokemon = Some p"
    by auto
  from update_triggers_pc_known [OF p, of triggered_id sr]
  obtain s1 where s1: "update_triggers_pc triggered_id u pokemon sr = Inr s1"
      "pokemon \<in> dom (pokemon_dict (db_pc s1))"
      "ballrate_dict (db_pc s1) = ballrate_dict (db_pc u)"
      "berry_dict (db_pc s1) = berry_dict (db_pc u)"
    by blast
  have "ball \<notin> dom (ballrate_dict (db_pc s1)) \<or> berry \<notin> dom (berry_dict (db_pc s1))"
    using a s1(3,4) by auto
  from catch_pokemon_unresolved [OF s1(2) this, of cp]
  obtain msg where msg: "catch_pokemon_pc (db_pc s1) pokemon cp ball berry = Inr (Printed_None msg)"
    by blast
  from s1(2) obtain q where q: "pokemon_dict (db_pc s1) pokemon = Some q"
    by auto
  have r: "update_catchrates_pc triggered_id u pokemon cp ball berry sr = (s1, [msg], Inl TypeError)"
    unfolding update_catchrates_pc_def using s1(1) q msg by simp
  show "snd (snd (update_catchrates_pc triggered_id u pokemon cp ball berry sr)) = Inl TypeError"
    by (simp add: r)
  show "update_triggers_pc triggered_id u pokemon sr
        = Inr (fst (update_catchrates_pc triggered_id u pokemon cp ball berry sr))"
    by (simp only: r s1(1) fst_conv)
qed (simp_all add: catch_pokemon_app_def catch_pokemon_pc_def)

theorem unresolved_identifier_witness:
  "catch_pokemon_app demo_db ''missingno'' 100 ''pokeball'' ''none'' = Inr (Printed_None ''Pokemon not found'')
 \<and> catch_pokemon_pc demo_db ''missingno'' 100 ''pokeball'' ''none'' = Inr (Printed_None ''Pokemon not found'')
 \<and> catch_pokemon_app demo_db ''pikachu'' 100 ''masterball'' ''none'' = Inr (Printed_None ''Ball not found'')
 \<and> catch_pokemon_pc demo_db ''pikachu'' 100 ''masterball'' ''none'' = Inr (Printed_None ''Ball not found'')
 \<and> catch_pokemon_app demo_db ''pikachu'' 100 ''pokeball'' ''pinap'' = Inr (Printed_None ''Berry not found'')
 \<and> catch_pokemon_pc demo_db ''pikachu'' 100 ''pokeball'' ''pinap'' = Inr (Printed_None ''Berry not found'')
 \<and> (\<exists>e. catchrate_calc_app demo_db ''pikachu'' 100 ''pokeball'' ''pinap'' ''Curve'' = Inl e
       \<and> catchrate_calc_pc demo_db ''pikachu'' 100 ''pokeball'' ''pinap'' ''Curve'' = Inl e)
 \<and> snd (snd (update_catchrates_app (Some ''pokemonname'') demo_app ''missingno'' 100 ''pokeball'' ''none'' ''No''))
     = Inl (KeyError ''missingno'')
 \<and> db_app (fst (update_catchrates_app (Some ''pokemonname'') demo_app ''missingno'' 100 ''pokeball'' ''none'' ''No''))
     = db_app demo_app
 \<and> pokemonchain_dict (fst (update_catchrates_app (Some ''pokemonname'') demo_app ''missingno'' 100 ''pokeball'' ''none'' ''No''))
     = pokemonchain_dict demo_app
 \<and> snd (snd (update_catchrates_pc (Some ''pokemonname'') demo_pc ''missingno'' 100 ''pokeball'' ''none'' ''No''))
     = Inl (KeyError ''missingno'')
 \<and> fst (update_catchrates_pc (Some ''pokemonname'') demo_pc ''missingno'' 100 ''pokeball'' ''none'' ''No'')
     = demo_pc
 \<and> snd (snd (update_catchrates_app (Some ''add1_btn'') demo_app ''pikachu'' 100 ''masterball'' ''none'' ''No''))
     = Inl TypeError
 \<and> snd (snd (update_catchrates_pc (Some ''add1_btn'') demo_pc ''pikachu'' 100 ''masterball'' ''none'' ''No''))
     = Inl TypeError
 \<and> update_triggers_pc (Some ''add1_btn'') demo_pc ''pikachu'' ''No''
     = Inr (fst (update_catchrates_pc (Some ''add1_btn'') demo_pc ''pikachu'' 100 ''masterball'' ''none'' ''No''))"
proof -
  have 1: "''missingno'' \<notin> dom (pokemon_dict demo_db)" "''pikachu'' \<in> dom (pokemon_dict demo_db)"
    "''masterball'' \<notin> dom (ballrate_dict demo_db)" "''pokeball'' \<in> dom (ballrate_dict demo_db)"
    "''pinap'' \<notin> dom (berry_dict demo_db)"
    by (simp_all add: domIff demo_lookups)
  have 2: "db_app demo_app = demo_db" "db_pc demo_pc = demo_db"
    by (simp_all add: demo_app_def demo_pc_def)
  have a: "catch_pokemon_app demo_db ''missingno'' 100 ''pokeball'' ''none'' = Inr (Printed_None ''Pokemon not found'')
     \<and> catch_pokemon_pc demo_db ''missingno'' 100 ''pokeball'' ''none'' = Inr (Printed_None ''Pokemon not found'')
     \<and> snd (snd (update_catchrates_app (Some ''pokemonname'') demo_app ''missingno'' 100 ''pokeball'' ''none'' ''No''))
         = Inl (KeyError ''missingno'')
     \<and> db_app (fst (update_catchrates_app (Some ''pokemonname'') demo_app ''missingno'' 100 ''pokeball'' ''none'' ''No''))
         = db_app demo_app
     \<and> pokemonchain_dict (fst (update_catchrates_app (Some ''pokemonname'') demo_app ''missingno'' 100 ''pokeball'' ''none'' ''No''))
         = pokemonchain_dict demo_app
     \<and> snd (snd (update_catchrates_pc (Some ''pokemonname'') demo_pc ''missingno'' 100 ''pokeball'' ''none'' ''No''))
         = Inl (KeyError ''missingno'')
     \<and> fst (update_catchrates_pc (Some ''pokemonname'') demo_pc ''missingno'' 100 ''pokeball'' ''none'' ''No'')
         = demo_pc"
    using unresolved_identifier [of "''missingno''" demo_db 100 "''pokeball''" "''none''" "''Curve''"
        demo_app "Some ''pokemonname''" "''No''" demo_pc] 1 2
    by simp
  have b: "catch_pokemon_app demo_db ''pikachu'' 100 ''masterball'' ''none'' = Inr (Printed_None ''Ball not found'')
     \<and> catch_pokemon_pc demo_db ''pikachu'' 100 ''masterball'' ''none'' = Inr (Printed_None ''Ball not found'')
     \<and> snd (snd (update_catchrates_app (Some ''add1_btn'') demo_app ''pikachu'' 100 ''masterball'' ''none'' ''No''))
         = Inl TypeError
     \<and> snd (snd (update_catchrates_pc (Some ''add1_btn'') demo_pc ''pikachu'' 100 ''masterball'' ''none'' ''No''))
         = Inl TypeError
     \<and> update_triggers_pc (Some ''add1_btn'') demo_pc ''pikachu'' ''No''
         = Inr (fst (update_catchrates_pc (Some ''add1_btn'') demo_pc ''pikachu'' 100 ''masterball'' ''none'' ''No''))"
    using unresolved_identifier [of "''pikachu''" demo_db 100 "''masterball''" "''none''" "''Curve''"
        demo_app "Some ''add1_btn''" "''No''" demo_pc] 1 2
    by simp
  have c: "catch_pokemon_app demo_db ''pikachu'' 100 ''pokeball'' ''pinap'' = Inr (Printed_None ''Berry not found'')
     \<and> catch_pokemon_pc demo_db ''pikachu'' 100 ''pokeball'' ''pinap'' = Inr (Printed_None ''Berry not found'')
     \<and> (\<exists>e. catchrate_calc_app demo_db ''pikachu'' 100 ''pokeball'' ''pinap'' ''Curve'' = Inl e
       \<and> catchrate_calc_pc demo_db ''pikachu'' 100 ''pokeball'' ''pinap'' ''Curve'' = Inl e)"
    using unresolved_identifier [of "''pikachu''" demo_db 100 "''pokeball''" "''pinap''" "''Curve''"
        demo_app "Some ''pokemonname''" "''No''" demo_pc] 1 demo_lookups(16)
    by auto
  show ?thesis
    using a b c by simp
qed

section \<open>Combat power that is not positive\<close>

text \<open>
  C8 fails as stated: no check of the combat power exists. With combat power 0 the
  call returns the full data frame; here every rate is clamped to 100.
\<close>

theorem combat_power_zero_accepted:
  "catch_pokemon_app demo_db ''pikachu'' 0 ''ultraball'' ''none''
   = Inr (DataFrame [(''None'', 100), (''Nice'', 100), (''Great'', 100), (''Excellent'', 100)])"
proof -
  have r: "rate_app 190 1 2 t 1 = 100" if "1 \<le> t" for t
    using that by (intro rate_app_clamped demo_a_app_ultra) auto
  have c: "catchrate_calc_app demo_db ''pikachu'' 0 ''ultraball'' ''none'' tech = Inr 100"
    if "map_of (technique_dict demo_db) tech = Some t" "1 \<le> t" for tech t
    using catchrate_calc_app_eq [OF demo_lookups(1) _ demo_lookups(7) that(1) demo_lookups(9), of 0]
      r [OF that(2)]
    by (simp add: cp_term_def)
  have "catchrate_calc_app demo_db ''pikachu'' 0 ''ultraball'' ''none'' ''None'' = Inr 100"
    "catchrate_calc_app demo_db ''pikachu'' 0 ''ultraball'' ''none'' ''Nice'' = Inr 100"
    "catchrate_calc_app demo_db ''pikachu'' 0 ''ultraball'' ''none'' ''Great'' = Inr 100"
    "catchrate_calc_app demo_db ''pikachu'' 0 ''ultraball'' ''none'' ''Excellent'' = Inr 100"
    by (rule c [OF demo_lookups(12)], simp, rule c [OF demo_lookups(13)], simp,
        rule c [OF demo_lookups(14)], simp, rule c [OF demo_lookups(15)], simp)
  moreover have "map fst (technique_dict demo_db) = [''None'', ''Nice'', ''Great'', ''Excellent'']"
    by (simp add: demo_db_def)
  ultimately show ?thesis
    by (simp add: catch_pokemon_app_def domIff demo_lookups)
qed

text \<open>
  C8, amended. A combat power \<open>cp \<le> 0\<close> is not rejected. While the denominator
  \<open>(100 - min 100 v) / 100 * cp + 1\<close> stays positive (as for \<open>cp = 0\<close>, or for any \<open>cp\<close>
  once \<open>v \<ge> 100\<close>) both variants return one rate for every technique, as for a
  positive combat power; when the denominator is 0 both raise
  \<^verbatim>\<open>ZeroDivisionError\<close> and return nothing.
\<close>

theorem nonpositive_combat_power:
  assumes "pokemon_dict db pokemon = Some p" and "0 < catch_rate p"
    and "ballrate_dict db ball = Some bl" and "0 < bl"
    and "berry_dict db berry = Some br" and "0 < br"
    and "\<forall>m\<in>snd ` set (technique_dict db). 0 < m"
    and "cp \<le> 0"
  shows "(0 < cp_term (times_caught p) cp \<longrightarrow>
      (\<exists>rows. catch_pokemon_app db pokemon cp ball berry = Inr (DataFrame rows)
          \<and> map fst rows = map fst (technique_dict db)
          \<and> (\<forall>r\<in>snd ` set rows. 0 \<le> r \<and> r \<le> 100))
    \<and> (\<exists>rows. catch_pokemon_pc db pokemon cp ball berry = Inr (DataFrame rows)
          \<and> map fst rows = map fst (technique_dict db)
          \<and> (\<forall>r\<in>snd ` set rows. r \<le> 100)))
  \<and> (cp_term (times_caught p) cp = 0 \<and> technique_dict db \<noteq> [] \<longrightarrow>
      catch_pokemon_app db pokemon cp ball berry = Inl ZeroDivisionError
    \<and> catch_pokemon_pc db pokemon cp ball berry = Inl ZeroDivisionError)"
proof (intro conjI impI)
  assume d: "0 < cp_term (times_caught p) cp"
  then have d0: "cp_term (times_caught p) cp \<noteq> 0"
    by simp
  have known: "pokemon \<in> dom (pokemon_dict db)" "ball \<in> dom (ballrate_dict db)"
    "berry \<in> dom (berry_dict db)"
    using assms by auto
  have tech: "\<exists>m. map_of (technique_dict db) t = Some m \<and> 0 < m"
    if "t \<in> set (map fst (technique_dict db))" for t
  proof -
    from that obtain m where m: "map_of (technique_dict db) t = Some m"
      by (metis domD dom_map_of_conv_image_fst set_map)
    then have "(t, m) \<in> set (technique_dict db)"
      by (rule map_of_SomeD)
    then have "m \<in> snd ` set (technique_dict db)"
      by force
    with assms(7) m show ?thesis
      by blast
  qed
  have "\<forall>t\<in>set (map fst (technique_dict db)).
      \<exists>r. catchrate_calc_app db pokemon cp ball berry t = Inr r \<and> (0 \<le> r \<and> r \<le> 100)"
  proof
    fix t assume "t \<in> set (map fst (technique_dict db))"
    then obtain m where m: "map_of (technique_dict db) t = Some m" "0 < m"
      using tech by blast
    show "\<exists>r. catchrate_calc_app db pokemon cp ball berry t = Inr r \<and> (0 \<le> r \<and> r \<le> 100)"
      unfolding catchrate_calc_app_eq [OF assms(1) d0 assms(3) m(1) assms(5)]
      using rate_app_range [OF assms(2) d assms(4) m(2) assms(6)] by simp
  qed
  from rate_rows_all [OF this]
  show "\<exists>rows. catch_pokemon_app db pokemon cp ball berry = Inr (DataFrame rows)
          \<and> map fst rows = map fst (technique_dict db)
          \<and> (\<forall>r\<in>snd ` set rows. 0 \<le> r \<and> r \<le> 100)"
    using known by (auto simp: catch_pokemon_app_def)
  have "\<forall>t\<in>set (map fst (technique_dict db)).
      \<exists>r. catchrate_calc_pc db pokemon cp ball berry t = Inr r \<and> r \<le> 100"
  proof
    fix t assume "t \<in> set (map fst (technique_dict db))"
    then obtain m where m: "map_of (technique_dict db) t = Some m" "0 < m"
      using tech by blast
    show "\<exists>r. catchrate_calc_pc db pokemon cp ball berry t = Inr r \<and> r \<le> 100"
      unfolding catchrate_calc_pc_eq [OF assms(1) d0 assms(3) m(1) assms(5)]
      using rate_pc_range [OF assms(2) d assms(4) m(2) assms(6)] by auto
  qed
  from rate_rows_all [OF this]
  show "\<exists>rows. catch_pokemon_pc db pokemon cp ball berry = Inr (DataFrame rows)
          \<and> map fst rows = map fst (technique_dict db)
          \<and> (\<forall>r\<in>snd ` set rows. r \<le> 100)"
    using known by (auto simp: catch_pokemon_pc_def)
next
  assume z: "cp_term (times_caught p) cp = 0 \<and> technique_dict db \<noteq> []"
  have known: "pokemon \<in> dom (pokemon_dict db)" "ball \<in> dom (ballrate_dict db)"
    "berry \<in> dom (berry_dict db)"
    using assms by auto
  have "\<forall>t\<in>set (map fst (technique_dict db)).
      catchrate_calc_app db pokemon cp ball berry t = Inl ZeroDivisionError"
    using z assms(1) by (simp add: catchrate_calc_app_def)
  then have a: "rate_rows (catchrate_calc_app db pokemon cp ball berry) (map fst (technique_dict db))
      = Inl ZeroDivisionError"
    using z by (intro rate_rows_first_error) auto
  show "catch_pokemon_app db pokemon cp ball berry = Inl ZeroDivisionError"
    using known a by (simp add: catch_pokemon_app_def)
  have "\<forall>t\<in>set (map fst (technique_dict db)).
      catchrate_calc_pc db pokemon cp ball berry t = Inl ZeroDivisionError"
    using z assms(1) by (simp add: catchrate_calc_pc_def)
  then have b: "rate_rows (catchrate_calc_pc db pokemon cp ball berry) (map fst (technique_dict db))
      = Inl ZeroDivisionError"
    using z by (intro rate_rows_first_error) auto
  show "catch_pokemon_pc db pokemon cp ball berry = Inl ZeroDivisionError"
    using known b by (simp add: catch_pokemon_pc_def)
qed

theorem nonpositive_combat_power_witness:
  "(\<exists>rows. catch_pokemon_app demo_db ''pikachu'' 0 ''pokeball'' ''none'' = Inr (DataFrame rows)
       \<and> map fst rows = [''None'', ''Nice'', ''Great'', ''Excellent'']
       \<and> (\<forall>r\<in>snd ` set rows. 0 \<le> r \<and> r \<le> 100))
   \<and> (\<exists>rows. catch_pokemon_pc demo_db ''pikachu'' 0 ''pokeball'' ''none'' = Inr (DataFrame rows)
       \<and> map fst rows = [''None'', ''Nice'', ''Great'', ''Excellent'']
       \<and> (\<forall>r\<in>snd ` set rows. r \<le> 100))
   \<and> catch_pokemon_app demo_db ''pikachu'' (- 1) ''pokeball'' ''none'' = Inl ZeroDivisionError
   \<and> catch_pokemon_pc demo_db ''pikachu'' (- 1) ''pokeball'' ''none'' = Inl ZeroDivisionError"
proof -
  have t: "\<forall>m\<in>snd ` set (technique_dict demo_db). 0 < m"
    by (simp add: demo_db_def)
  have k: "map fst (technique_dict demo_db) = [''None'', ''Nice'', ''Great'', ''Excellent'']"
    "technique_dict demo_db \<noteq> []"
    by (simp_all add: demo_db_def)
  have d: "0 < cp_term 0 0" "cp_term 0 (- 1) = 0"
    by (simp_all add: cp_term_def)
  show ?thesis
    using nonpositive_combat_power [OF demo_lookups(1) _ demo_lookups(5) _ demo_lookups(9) _ t, of 0]
      nonpositive_combat_power [OF demo_lookups(1) _ demo_lookups(5) _ demo_lookups(9) _ t, of "- 1"]
      k d
    by simp
qed

end
